theory Spec2Isabelle
  imports Main "HOL-Library.Word" "HOL-Library.Char_ord"
begin

section \<open>The SourcePawn lexer (v2/lexer.cpp)\<close>

text \<open>
  A shallow embedding of \<^verbatim>\<open>Lexer\<close> of \<^verbatim>\<open>v2/lexer.cpp\<close>. Every member function is a HOL
  function from the lexer state to a result and the new state. The compile context
  \<^verbatim>\<open>cc_\<close> and the preprocessor \<^verbatim>\<open>pp_\<close> are other objects the lexer calls; what the lexer
  does to them (the diagnostics it delivers, the comments and macros it registers) is
  kept in fields of the same state record.
\<close>

subsection \<open>Tokens\<close>

datatype TokenKind =
    TOK_NONE | TOK_EOL | TOK_EOF | TOK_UNKNOWN | TOK_COMMENT
  | TOK_INTEGER_LITERAL | TOK_HEX_LITERAL | TOK_FLOAT_LITERAL | TOK_CHAR_LITERAL
  | TOK_STRING_LITERAL | TOK_NAME | TOK_LABEL
  | TOK_SEMICOLON | TOK_LBRACE | TOK_RBRACE | TOK_LPAREN | TOK_RPAREN | TOK_LBRACKET
  | TOK_RBRACKET | TOK_TILDE | TOK_QMARK | TOK_COLON | TOK_COMMA | TOK_ELLIPSES | TOK_DOT
  | TOK_ASSIGN_DIV | TOK_SLASH | TOK_ASSIGN_MUL | TOK_STAR | TOK_ASSIGN_ADD
  | TOK_INCREMENT | TOK_PLUS | TOK_ASSIGN_BITAND | TOK_AND | TOK_BITAND
  | TOK_ASSIGN_BITOR | TOK_OR | TOK_BITOR | TOK_ASSIGN_BITXOR | TOK_BITXOR
  | TOK_ASSIGN_MOD | TOK_PERCENT | TOK_ASSIGN_SUB | TOK_DECREMENT | TOK_MINUS
  | TOK_NOTEQUALS | TOK_NOT | TOK_EQUALS | TOK_ASSIGN | TOK_LE | TOK_ASSIGN_SHL
  | TOK_SHL | TOK_LT | TOK_GE | TOK_ASSIGN_USHR | TOK_USHR | TOK_SHR | TOK_GT
  | TOK_M_DEFINE | TOK_M_IF | TOK_M_ELSE | TOK_M_ENDIF | TOK_M_UNDEF | TOK_M_ENDINPUT
  | TOK_M_INCLUDE | TOK_M_TRYINCLUDE | TOK_M_PRAGMA

text \<open>
  A source location is an opaque handle that is either unset or names a byte of the
  buffer; \<^verbatim>\<open>isSet\<close> tells the two apart. An atom is an interned byte string, and two atoms
  are equal when their bytes are: the model takes the bytes themselves.
\<close>

type_synonym SourceLocation = "nat option"
type_synonym Atom = string

definition isSet :: "SourceLocation \<Rightarrow> bool" where
  "isSet l = (l \<noteq> None)"

record TokenPos =
  loc :: SourceLocation
  line :: nat

definition TokenPos_unset :: TokenPos where
  "TokenPos_unset = \<lparr> loc = None, line = 0 \<rparr>"

text \<open>
  The payload of a token. A float literal carries \<^verbatim>\<open>ParseDouble(literal())\<close>; doubles are
  not modelled, so the payload records the text handed to \<^verbatim>\<open>ParseDouble\<close>.
\<close>

datatype TokenValue =
    NoValue
  | IntValue "64 word"
  | DoubleValue string
  | CharValue int
  | AtomValue Atom

record Token =
  kind :: TokenKind
  start :: TokenPos
  endpos :: TokenPos
  payload :: TokenValue

definition Token_new :: Token where
  "Token_new = \<lparr> kind = TOK_NONE, start = TokenPos_unset, endpos = TokenPos_unset,
     payload = NoValue \<rparr>"

text \<open>
  Modelled from the spec: \<^verbatim>\<open>Token::init\<close> (its header is not among the sources) records
  the start position of the token being scanned; no other effect on the token is
  described, so kind, end and payload stay as the caller left them.
\<close>

definition Token_init :: "TokenPos \<Rightarrow> Token \<Rightarrow> Token" where
  "Token_init p tok = tok\<lparr> start := p \<rparr>"

subsection \<open>Diagnostics, if-contexts and the lexer state\<close>

datatype rmsg =
    expected_digit_for_float | int_literal_overflow | unknown_escapecode
  | invalid_char_literal | bad_char_terminator | unterminated_string
  | unterminated_comment | unexpected_char | unknown_directive | bad_directive_token
  | pp_extra_characters | else_without_if | else_declared_twice | endif_without_if
  | unterminated_if | unterminated_else | bad_include_syntax
  | macro_functions_unsupported | pragma_must_have_name | bad_pragma_newdecls
  | unknown_pragma

datatype IfState = Active | Ignoring | Inactive | Dead

record IfContext =
  first :: SourceLocation
  state :: IfState
  elseloc :: SourceLocation

definition IfContext_new :: "SourceLocation \<Rightarrow> IfState \<Rightarrow> IfContext" where
  "IfContext_new l st = \<lparr> first = l, state = st, elseloc = None \<rparr>"

datatype CommentPos = Front | Tail

datatype pp_event =
    EnterMacro SourceLocation Atom
  | EnterFile TokenKind SourceLocation string bool
  | DeprecationMessage string
  | PragmaDynamic int

text \<open>
  The lexer's members, then what its calls leave in the compile context (\<open>reported\<close>:
  the diagnostics delivered to \<^verbatim>\<open>cc_.report\<close>, in order; message arguments and attached
  notes are not kept) and in the preprocessor (\<open>keyword_table\<close>: the keyword table that
  \<^verbatim>\<open>findKeyword\<close> reads; \<open>macros\<close>; the \<open>macro_expansion\<close> flag; \<open>comments\<close>: the
  ranges given to \<^verbatim>\<open>addComment\<close>; \<open>events\<close>: the other requests, in order).
  The if-stack grows at the end of the list, as \<^verbatim>\<open>Vector::append\<close> does.
\<close>

record Lexer =
  chars :: string
  pos :: nat
  line_number :: nat
  lexing_for_directive :: bool
  suppress_errors :: bool
  lexed_tokens_on_line :: bool
  literal :: string
  ifstack :: "IfContext list"
  TraceComments :: bool
  RequireNewdecls :: bool
  reported :: "(SourceLocation \<times> rmsg) list"
  keyword_table :: "(string \<times> TokenKind) list"
  macros :: "(Atom \<times> Token list) list"
  macro_expansion :: bool
  comments :: "(CommentPos \<times> SourceLocation \<times> SourceLocation) list"
  events :: "pp_event list"

definition Lexer_new :: "(string \<times> TokenKind) list \<Rightarrow> bool \<Rightarrow> string \<Rightarrow> Lexer" where
  "Lexer_new kws trace buffer =
     \<lparr> chars = buffer, pos = 0, line_number = 1, lexing_for_directive = False,
       suppress_errors = False, lexed_tokens_on_line = False, literal = [],
       ifstack = [], TraceComments = trace, RequireNewdecls = False, reported = [],
       keyword_table = kws, macros = [], macro_expansion = True, comments = [],
       events = [] \<rparr>"

text \<open>
  What stops a call short of a result: an \<^verbatim>\<open>assert\<close> of the source that does not hold
  (named by its condition), a null \<^verbatim>\<open>currentIf()\<close> that is dereferenced, a part of the
  preprocessor that the model does not cover, and the fuel of the model running out.
\<close>

datatype error = AssertionFailed string | NullDereference | NotModelled | OutOfFuel

subsection \<open>Reporting\<close>

definition cc_report :: "SourceLocation \<Rightarrow> rmsg \<Rightarrow> Lexer \<Rightarrow> Lexer" where
  "cc_report l m s = s\<lparr> reported := reported s @ [(l, m)] \<rparr>"

definition report :: "SourceLocation \<Rightarrow> rmsg \<Rightarrow> Lexer \<Rightarrow> Lexer" where
  "report l m s = (if suppress_errors s then s else cc_report l m s)"

subsection \<open>Character classes\<close>

abbreviation (input) NUL :: char where "NUL \<equiv> CHR 0x00"
abbreviation (input) TAB :: char where "TAB \<equiv> CHR 0x09"
abbreviation (input) LF :: char where "LF \<equiv> CHR 0x0A"
abbreviation (input) FF :: char where "FF \<equiv> CHR 0x0C"
abbreviation (input) CR :: char where "CR \<equiv> CHR 0x0D"
abbreviation (input) DQUOTE :: char where "DQUOTE \<equiv> CHR 0x22"
abbreviation (input) SQUOTE :: char where "SQUOTE \<equiv> CHR 0x27"
abbreviation (input) BACKSLASH :: char where "BACKSLASH \<equiv> CHR 0x5C"

definition IsDigit :: "char \<Rightarrow> bool" where
  "IsDigit c = (CHR ''0'' \<le> c \<and> c \<le> CHR ''9'')"

definition IsHexDigit :: "char \<Rightarrow> bool" where
  "IsHexDigit c = (IsDigit c \<or> (CHR ''a'' \<le> c \<and> c \<le> CHR ''f'')
     \<or> (CHR ''A'' \<le> c \<and> c \<le> CHR ''F''))"

definition IsLineTerminator :: "char \<Rightarrow> bool" where
  "IsLineTerminator c = (c = LF \<or> c = CR \<or> c = NUL)"

definition IsSkipSpace :: "char \<Rightarrow> bool" where
  "IsSkipSpace c = (c = CHR '' '' \<or> c = TAB \<or> c = FF)"

definition IsIdentStart :: "char \<Rightarrow> bool" where
  "IsIdentStart c = ((CHR ''a'' \<le> c \<and> c \<le> CHR ''z'') \<or> (CHR ''A'' \<le> c \<and> c \<le> CHR ''Z'')
     \<or> c = CHR ''_'')"

definition IsIdentChar :: "char \<Rightarrow> bool" where
  "IsIdentChar c = (IsIdentStart c \<or> (CHR ''0'' \<le> c \<and> c \<le> CHR ''9''))"

subsection \<open>The cursor\<close>

text \<open>
  Modelled from the spec: the cursor operations of \<^verbatim>\<open>lexer.h\<close>, which is not among the
  sources. \<^verbatim>\<open>read_char\<close> advances and returns the byte, \<^verbatim>\<open>'\0'\<close> at the end of the buffer
  (so that the \<^verbatim>\<open>pos_--\<close> that follows a read is always legal); \<^verbatim>\<open>peek_char\<close> looks without
  advancing; \<^verbatim>\<open>match_char\<close> consumes the byte when it is the expected one; \<^verbatim>\<open>pos\<close> is the
  location of the next byte and \<^verbatim>\<open>lastpos\<close> the location of the byte just read.
\<close>

definition char_at :: "Lexer \<Rightarrow> nat \<Rightarrow> char" where
  "char_at s i = (if i < length (chars s) then chars s ! i else NUL)"

definition readChar :: "Lexer \<Rightarrow> char \<times> Lexer" where
  "readChar s = (char_at s (pos s), s\<lparr> pos := pos s + 1 \<rparr>)"

definition peekChar :: "Lexer \<Rightarrow> char" where
  "peekChar s = char_at s (pos s)"

definition matchChar :: "char \<Rightarrow> Lexer \<Rightarrow> bool \<times> Lexer" where
  "matchChar c s = (if peekChar s = c then (True, s\<lparr> pos := pos s + 1 \<rparr>) else (False, s))"

definition backup :: "Lexer \<Rightarrow> Lexer" where
  "backup s = s\<lparr> pos := pos s - 1 \<rparr>"

definition pos_loc :: "Lexer \<Rightarrow> SourceLocation" where
  "pos_loc s = Some (pos s)"

definition lastpos :: "Lexer \<Rightarrow> SourceLocation" where
  "lastpos s = Some (pos s - 1)"

definition here :: "Lexer \<Rightarrow> TokenPos" where
  "here s = \<lparr> loc = pos_loc s, line = line_number s \<rparr>"

definition append_literal :: "char \<Rightarrow> Lexer \<Rightarrow> Lexer" where
  "append_literal c s = s\<lparr> literal := literal s @ [c] \<rparr>"

text \<open>
  Modelled from the spec: \<^verbatim>\<open>literal_length()\<close> of \<^verbatim>\<open>lexer.h\<close>. The scratch buffer is
  NUL-terminated on completion and the length is that of the text before the NUL.
\<close>

definition literal_length :: "Lexer \<Rightarrow> nat" where
  "literal_length s = length (literal s) - 1"

lemma char_at_not_NUL: "char_at s i \<noteq> NUL \<Longrightarrow> i < length (chars s)"
  by (simp add: char_at_def split: if_splits)

lemma IsSkipSpace_not_NUL: "IsSkipSpace c \<Longrightarrow> c \<noteq> NUL"
  by (auto simp: IsSkipSpace_def)

lemma IsDigit_not_NUL: "IsDigit c \<Longrightarrow> c \<noteq> NUL"
  by (auto simp: IsDigit_def)

lemma IsHexDigit_not_NUL: "IsHexDigit c \<Longrightarrow> c \<noteq> NUL"
  by (auto simp: IsHexDigit_def IsDigit_def)

lemma IsIdentChar_not_NUL: "IsIdentChar c \<Longrightarrow> c \<noteq> NUL"
  by (auto simp: IsIdentChar_def IsIdentStart_def)

lemma IsSkipSpace_char_at: "IsSkipSpace (char_at s i) \<Longrightarrow> i < length (chars s)"
  by (rule char_at_not_NUL) (rule IsSkipSpace_not_NUL)

lemma IsDigit_char_at: "IsDigit (char_at s i) \<Longrightarrow> i < length (chars s)"
  by (rule char_at_not_NUL) (rule IsDigit_not_NUL)

lemma IsHexDigit_char_at: "IsHexDigit (char_at s i) \<Longrightarrow> i < length (chars s)"
  by (rule char_at_not_NUL) (rule IsHexDigit_not_NUL)

lemma IsIdentChar_char_at: "IsIdentChar (char_at s i) \<Longrightarrow> i < length (chars s)"
  by (rule char_at_not_NUL) (rule IsIdentChar_not_NUL)

lemma not_IsLineTerminator_char_at:
  "\<not> IsLineTerminator (char_at s i) \<Longrightarrow> i < length (chars s)"
  by (rule char_at_not_NUL) (simp add: IsLineTerminator_def)

subsection \<open>Spaces and the rest of a line\<close>

function skipSpaces :: "Lexer \<Rightarrow> Lexer" where
  "skipSpaces s = (if IsSkipSpace (peekChar s) then skipSpaces (snd (readChar s)) else s)"
  by pat_completeness auto
termination
  by (relation "measure (\<lambda>s. length (chars s) - pos s)")
     (auto simp: peekChar_def readChar_def dest: IsSkipSpace_char_at)

declare skipSpaces.simps [simp del]

text \<open>
  The loops of the form \<^verbatim>\<open>c = readChar(); while (P(c)) c = readChar();\<close> carry the byte
  read last. They stop at the end of the buffer because the sentinel satisfies no \<open>P\<close>.
\<close>

function firstNonSpaceChar_loop :: "char \<Rightarrow> Lexer \<Rightarrow> char \<times> Lexer" where
  "firstNonSpaceChar_loop c s =
     (if IsSkipSpace c then firstNonSpaceChar_loop (fst (readChar s)) (snd (readChar s))
      else (c, s))"
  by pat_completeness auto
termination
  by (relation "measure (\<lambda>(c, s). 2 * (length (chars s) - pos s) + (if IsSkipSpace c then 1 else 0))")
     (auto simp: readChar_def char_at_def IsSkipSpace_def split: if_splits)

declare firstNonSpaceChar_loop.simps [simp del]

definition firstNonSpaceChar :: "Lexer \<Rightarrow> char \<times> Lexer" where
  "firstNonSpaceChar s = firstNonSpaceChar_loop (fst (readChar s)) (snd (readChar s))"

function readUntilEnd_scan :: "Lexer \<Rightarrow> Lexer" where
  "readUntilEnd_scan s =
     (if \<not> IsLineTerminator (peekChar s) then readUntilEnd_scan (snd (readChar s)) else s)"
  by pat_completeness auto
termination
  by (relation "measure (\<lambda>s. length (chars s) - pos s)")
     (auto simp: peekChar_def readChar_def dest: not_IsLineTerminator_char_at)

declare readUntilEnd_scan.simps [simp del]

function readUntilEnd_trim :: "Lexer \<Rightarrow> nat \<Rightarrow> nat \<Rightarrow> nat" where
  "readUntilEnd_trim s b e =
     (if e > b then
        (if \<not> IsSkipSpace (char_at s e) \<and> \<not> IsLineTerminator (char_at s e) then e
         else readUntilEnd_trim s b (e - 1))
      else e)"
  by pat_completeness auto
termination
  by (relation "measure (\<lambda>(s, b, e). e)") auto

declare readUntilEnd_trim.simps [simp del]

text \<open>Returns \<^verbatim>\<open>*beginp\<close> and \<^verbatim>\<open>*endp\<close> as offsets into the buffer.\<close>

definition readUntilEnd :: "Lexer \<Rightarrow> nat \<times> nat \<times> Lexer" where
  "readUntilEnd s =
     (let s1 = skipSpaces s;
          b = pos s1;
          s2 = readUntilEnd_scan s1;
          e = readUntilEnd_trim s2 b (pos s2)
      in (b, e + 1, s2))"

subsection \<open>Number literals\<close>

function hexLiteral_loop :: "Lexer \<Rightarrow> Lexer" where
  "hexLiteral_loop s =
     (if \<not> IsHexDigit (fst (readChar s)) then backup (snd (readChar s))
      else hexLiteral_loop (append_literal (fst (readChar s)) (snd (readChar s))))"
  by pat_completeness auto
termination
  by (relation "measure (\<lambda>s. length (chars s) - pos s)")
     (auto simp: readChar_def append_literal_def dest: IsHexDigit_char_at)

declare hexLiteral_loop.simps [simp del]

definition hexLiteral :: "Lexer \<Rightarrow> TokenKind \<times> Lexer" where
  "hexLiteral s =
     (let s1 = hexLiteral_loop (s\<lparr> literal := [] \<rparr>)
      in (TOK_HEX_LITERAL, append_literal NUL s1))"

text \<open>
  The first digit loop of \<^verbatim>\<open>numberLiteral\<close> leaves the cursor after the byte that ended
  it and hands that byte on; the later ones back up before they break.
\<close>

function numberLiteral_digits :: "Lexer \<Rightarrow> char \<times> Lexer" where
  "numberLiteral_digits s =
     (if \<not> IsDigit (fst (readChar s)) then readChar s
      else numberLiteral_digits (append_literal (fst (readChar s)) (snd (readChar s))))"
  by pat_completeness auto
termination
  by (relation "measure (\<lambda>s. length (chars s) - pos s)")
     (auto simp: readChar_def append_literal_def dest: IsDigit_char_at)

declare numberLiteral_digits.simps [simp del]

function numberLiteral_more :: "Lexer \<Rightarrow> char \<times> Lexer" where
  "numberLiteral_more s =
     (if \<not> IsDigit (fst (readChar s)) then (fst (readChar s), backup (snd (readChar s)))
      else numberLiteral_more (append_literal (fst (readChar s)) (snd (readChar s))))"
  by pat_completeness auto
termination
  by (relation "measure (\<lambda>s. length (chars s) - pos s)")
     (auto simp: readChar_def append_literal_def dest: IsDigit_char_at)

declare numberLiteral_more.simps [simp del]

definition numberLiteral :: "char \<Rightarrow> Lexer \<Rightarrow> TokenKind \<times> Lexer" where
  "numberLiteral first_char s =
     (let s0 = append_literal first_char (s\<lparr> literal := [] \<rparr>);
          (c, s1) = numberLiteral_digits s0
      in if length (literal s1) = 1 \<and> literal s1 ! 0 = CHR ''0'' \<and> (c = CHR ''x'' \<or> c = CHR ''X'')
         then hexLiteral s1
         else if c \<noteq> CHR ''.'' then (TOK_INTEGER_LITERAL, append_literal NUL (backup s1))
         else
           (let s2 = append_literal c s1;
                (c2, s3) = readChar s2
            in if \<not> IsDigit c2
               then (TOK_UNKNOWN, cc_report (pos_loc s3) expected_digit_for_float s3)
               else
                 (let (c3, s4) = numberLiteral_more (append_literal c2 s3);
                      (m, s5) = matchChar (CHR ''e'') s4
                  in if \<not> m then (TOK_FLOAT_LITERAL, append_literal NUL s5)
                     else
                       (let s6 = append_literal c3 s5;
                            (c4, s7) = readChar s6;
                            (c5, s8) = (if c4 = CHR ''-'' then readChar (append_literal c4 s7)
                                        else (c4, s7))
                        in if \<not> IsDigit c5
                           then (TOK_UNKNOWN,
                                 cc_report (pos_loc (backup s8)) expected_digit_for_float (backup s8))
                           else
                             (let (c6, s9) = numberLiteral_more (append_literal c5 s8)
                              in (TOK_FLOAT_LITERAL, append_literal NUL s9))))))"

text \<open>The value of a hexadecimal digit, with the asserts of the source as failures.\<close>

definition HexDigitToValue :: "char \<Rightarrow> error + 64 word" where
  "HexDigitToValue c =
     (if IsDigit c then Inr (of_nat (of_char c - of_char (CHR ''0'')))
      else if CHR ''a'' \<le> c then
        (if c \<le> CHR ''f'' then Inr (of_nat (of_char c - of_char (CHR ''a'') + 10))
         else Inl (AssertionFailed ''c <= 'f' ''))
      else if CHR ''A'' \<le> c \<and> c \<le> CHR ''F''
        then Inr (of_nat (of_char c - of_char (CHR ''A'') + 10))
      else Inl (AssertionFailed ''c >= 'A' && c <= 'F' ''))"

text \<open>
  Modelled from the spec: the checked arithmetic of \<^verbatim>\<open>am-arithmetic.h\<close>, which is not
  among the sources. A checked multiply or add gives the result when it fits 64 bits
  and fails on overflow, leaving the accumulator as it was.
\<close>

definition TryUint64Multiply :: "64 word \<Rightarrow> 64 word \<Rightarrow> 64 word option" where
  "TryUint64Multiply a b = (if unat a * unat b < 2 ^ 64 then Some (a * b) else None)"

definition TryUint64Add :: "64 word \<Rightarrow> 64 word \<Rightarrow> 64 word option" where
  "TryUint64Add a b = (if unat a + unat b < 2 ^ 64 then Some (a + b) else None)"

text \<open>
  The decoding loops of \<^verbatim>\<open>handleNumber\<close> run over \<^verbatim>\<open>literal_[0 .. literal_length())\<close>;
  a \<^verbatim>\<open>break\<close> after a report ends the loop with the accumulator reached so far.
\<close>

fun handleNumber_integer ::
  "SourceLocation \<Rightarrow> string \<Rightarrow> 64 word \<Rightarrow> Lexer \<Rightarrow> error + (64 word \<times> Lexer)" where
  "handleNumber_integer l [] val s = Inr (val, s)"
| "handleNumber_integer l (c # cs) val s =
     (if \<not> IsDigit c then Inl (AssertionFailed ''IsDigit(literal_[i])'')
      else case TryUint64Multiply val 10 of
        None \<Rightarrow> Inr (val, report l int_literal_overflow s)
      | Some v1 \<Rightarrow>
          (case TryUint64Add v1 (of_nat (of_char c - of_char (CHR ''0''))) of
             None \<Rightarrow> Inr (v1, report l int_literal_overflow s)
           | Some v2 \<Rightarrow> handleNumber_integer l cs v2 s))"

fun handleNumber_hex ::
  "SourceLocation \<Rightarrow> string \<Rightarrow> 64 word \<Rightarrow> Lexer \<Rightarrow> error + (64 word \<times> Lexer)" where
  "handleNumber_hex l [] val s = Inr (val, s)"
| "handleNumber_hex l (c # cs) val s =
     (case HexDigitToValue c of
        Inl e \<Rightarrow> Inl e
      | Inr digit \<Rightarrow>
          (case TryUint64Multiply val 10 of
             None \<Rightarrow> Inr (val, report l int_literal_overflow s)
           | Some v1 \<Rightarrow>
               (case TryUint64Add v1 digit of
                  None \<Rightarrow> Inr (v1, report l int_literal_overflow s)
                | Some v2 \<Rightarrow> handleNumber_hex l cs v2 s)))"

definition handleNumber ::
  "Token \<Rightarrow> char \<Rightarrow> Lexer \<Rightarrow> error + (TokenKind \<times> Token \<times> Lexer)" where
  "handleNumber tok first_char s =
     (let (k, s1) = numberLiteral first_char s
      in if k = TOK_INTEGER_LITERAL then
           (case handleNumber_integer (loc (start tok))
                   (take (literal_length s1) (literal s1)) 0 s1 of
              Inl e \<Rightarrow> Inl e
            | Inr (val, s2) \<Rightarrow> Inr (k, tok\<lparr> payload := IntValue val \<rparr>, s2))
         else if k = TOK_HEX_LITERAL then
           (case handleNumber_hex (loc (start tok))
                   (take (literal_length s1) (literal s1)) 0 s1 of
              Inl e \<Rightarrow> Inl e
            | Inr (val, s2) \<Rightarrow> Inr (k, tok\<lparr> payload := IntValue val \<rparr>, s2))
         else if k = TOK_FLOAT_LITERAL then
           Inr (k, tok\<lparr> payload := DoubleValue (take (literal_length s1) (literal s1)) \<rparr>, s1)
         else Inl (AssertionFailed ''false''))"

subsection \<open>Names and keywords\<close>

function name_loop :: "Lexer \<Rightarrow> Lexer" where
  "name_loop s =
     (if \<not> IsIdentChar (fst (readChar s)) then backup (snd (readChar s))
      else name_loop (append_literal (fst (readChar s)) (snd (readChar s))))"
  by pat_completeness auto
termination
  by (relation "measure (\<lambda>s. length (chars s) - pos s)")
     (auto simp: readChar_def append_literal_def dest: IsIdentChar_char_at)

declare name_loop.simps [simp del]

definition name :: "char \<Rightarrow> Lexer \<Rightarrow> TokenKind \<times> Lexer" where
  "name first_char s =
     (let s1 = name_loop (append_literal first_char (s\<lparr> literal := [] \<rparr>))
      in (TOK_NAME, append_literal NUL s1))"

text \<open>
  \<^verbatim>\<open>cc_.add(literal(), literal_length())\<close> interns the text of the scratch buffer; the
  atom of the model is that text.
\<close>

definition cc_add :: "Lexer \<Rightarrow> Atom" where
  "cc_add s = take (literal_length s) (literal s)"

text \<open>
  Modelled from the spec: \<^verbatim>\<open>Preprocessor::findKeyword\<close> (the preprocessor is not among
  the sources) returns the kind the keyword table gives the atom, \<^verbatim>\<open>TOK_NONE\<close> when the
  atom is no keyword. \<^verbatim>\<open>maybeKeyword('#')\<close> looks up the directive name with its \<^verbatim>\<open>#\<close>.
\<close>

definition pp_findKeyword :: "Atom \<Rightarrow> Lexer \<Rightarrow> TokenKind" where
  "pp_findKeyword a s = (case map_of (keyword_table s) a of None \<Rightarrow> TOK_NONE | Some k \<Rightarrow> k)"

definition directive_keywords :: "(string \<times> TokenKind) list" where
  "directive_keywords =
     [(''#define'', TOK_M_DEFINE), (''#undef'', TOK_M_UNDEF), (''#if'', TOK_M_IF),
      (''#else'', TOK_M_ELSE), (''#endif'', TOK_M_ENDIF), (''#include'', TOK_M_INCLUDE),
      (''#tryinclude'', TOK_M_TRYINCLUDE), (''#endinput'', TOK_M_ENDINPUT),
      (''#pragma'', TOK_M_PRAGMA)]"

definition maybeKeyword :: "char \<Rightarrow> Lexer \<Rightarrow> TokenKind \<times> Lexer" where
  "maybeKeyword first_char s =
     (let s1 = snd (name first_char s) in (pp_findKeyword (cc_add s1) s1, s1))"

subsection \<open>Escape codes, character and string literals\<close>

text \<open>
  \<^verbatim>\<open>char\<close> is taken as signed, as on the x86 targets of the build: a \<^verbatim>\<open>char\<close> widens to
  \<^verbatim>\<open>int\<close> by sign extension, and an \<^verbatim>\<open>int\<close> narrows to \<^verbatim>\<open>char\<close> by its low eight bits.
\<close>

definition int_of_char :: "char \<Rightarrow> int" where
  "int_of_char c = sint (of_char c :: 8 word)"

definition tolower :: "char \<Rightarrow> char" where
  "tolower c = (if CHR ''A'' \<le> c \<and> c \<le> CHR ''Z'' then char_of (of_char c + (32::nat)) else c)"

definition INT_MAX :: int where
  "INT_MAX = 2147483647"

text \<open>
  The loop of the \<^verbatim>\<open>\x\<close> case. The source stores the shifted value into \<^verbatim>\<open>c\<close> and then
  reads the next byte into \<^verbatim>\<open>c\<close> again; \<^verbatim>\<open>r\<close> is never assigned. The model keeps both
  assignments: \<open>shifted\<close> is the value that the second assignment overwrites.
\<close>

function readEscapeCode_hex :: "nat \<Rightarrow> char \<Rightarrow> Lexer \<Rightarrow> char \<times> Lexer" where
  "readEscapeCode_hex digits c s =
     (if IsHexDigit c \<and> digits < 2 then
        (let shifted :: 8 word =
               (if IsDigit c then push_bit 4 (of_char c) + (of_char c - of_char (CHR ''0''))
                else push_bit 4 (of_char c) + (of_char (tolower c) - of_char (CHR ''a'') + 10))
         in readEscapeCode_hex (digits + 1) (fst (readChar s)) (snd (readChar s)))
      else (c, s))"
  by pat_completeness auto
termination
  by (relation "measure (\<lambda>(digits, c, s). 2 - digits)") auto

declare readEscapeCode_hex.simps [simp del]

function readEscapeCode_dec :: "8 word \<Rightarrow> char \<Rightarrow> Lexer \<Rightarrow> 8 word \<times> char \<times> Lexer" where
  "readEscapeCode_dec r c s =
     (if IsDigit c then
        readEscapeCode_dec (r * 10 + (of_char c - of_char (CHR ''0'')))
          (fst (readChar s)) (snd (readChar s))
      else (r, c, s))"
  by pat_completeness auto
termination
  by (relation "measure (\<lambda>(r, c, s). 2 * (length (chars s) - pos s) + (if IsDigit c then 1 else 0))")
     (auto simp: readChar_def char_at_def IsDigit_def split: if_splits)

declare readEscapeCode_dec.simps [simp del]

definition readEscapeCode :: "Lexer \<Rightarrow> int \<times> Lexer" where
  "readEscapeCode s =
     (let (c, s1) = readChar s
      in if c = BACKSLASH then (int_of_char c, s1)
         else if c = CHR ''a'' then (7, s1)
         else if c = CHR ''b'' then (8, s1)
         else if c = CHR ''e'' then (27, s1)
         else if c = CHR ''f'' then (12, s1)
         else if c = CHR ''n'' then (10, s1)
         else if c = CHR ''r'' then (13, s1)
         else if c = CHR ''t'' then (9, s1)
         else if c = CHR ''v'' then (11, s1)
         else if c = CHR ''x'' then
           (let r :: 8 word = 0;
                (c1, s2) = readChar s1;
                (c2, s3) = readEscapeCode_hex 0 c1 s2;
                s4 = (if c2 \<noteq> CHR '';'' then backup s3 else s3)
            in (sint r, s4))
         else if c = SQUOTE \<or> c = DQUOTE \<or> c = CHR ''%'' then (int_of_char c, s1)
         else if IsDigit c then
           (let (r, c1, s2) = readEscapeCode_dec 0 c s1;
                s3 = (if c1 \<noteq> CHR '';'' then backup s2 else s2)
            in (sint r, s3))
         else (INT_MAX, cc_report (lastpos s1) unknown_escapecode s1))"

definition charLiteral :: "Token \<Rightarrow> Lexer \<Rightarrow> TokenKind \<times> Token \<times> Lexer" where
  "charLiteral tok s =
     (let (c, s1) = readChar s
      in if c = SQUOTE
         then (TOK_UNKNOWN, tok, report (loc (start tok)) invalid_char_literal s1)
         else
           (let tok1 = tok\<lparr> kind := TOK_CHAR_LITERAL \<rparr>;
                (tok2, s2) =
                  (if c = BACKSLASH
                   then (let (code, s') = readEscapeCode s1
                         in (tok1\<lparr> payload := CharValue code \<rparr>, s'))
                   else (tok1\<lparr> payload := CharValue (int_of_char c) \<rparr>, s1));
                (c2, s3) = readChar s2;
                s4 = (if c2 \<noteq> SQUOTE
                      then (let s' = report (loc (start tok2)) bad_char_terminator s3
                            in if c2 \<noteq> DQUOTE then backup s' else s')
                      else s3)
            in (kind tok2, tok2, s4)))"

lemma readEscapeCode_hex_pos:
  "pos s \<le> pos (snd (readEscapeCode_hex digits c s)) \<and>
   chars (snd (readEscapeCode_hex digits c s)) = chars s"
proof (induction digits c s rule: readEscapeCode_hex.induct)
  case (1 digits c s)
  then show ?case
    by (auto simp: readEscapeCode_hex.simps[of digits c s] readChar_def Let_def)
qed

lemma readEscapeCode_dec_pos:
  "pos s \<le> pos (snd (snd (readEscapeCode_dec r c s))) \<and>
   chars (snd (snd (readEscapeCode_dec r c s))) = chars s"
proof (induction r c s rule: readEscapeCode_dec.induct)
  case (1 r c s)
  then show ?case
    by (auto simp: readEscapeCode_dec.simps[of r c s] readChar_def)
qed

lemma readEscapeCode_pos:
  "pos s \<le> pos (snd (readEscapeCode s)) \<and> chars (snd (readEscapeCode s)) = chars s"
proof -
  have hex: "chars (snd (readEscapeCode_hex 0 c t)) = chars t" for c t
    using readEscapeCode_hex_pos[of t 0 c] by auto
  have dec: "chars (snd (snd (readEscapeCode_dec 0 c t))) = chars t" for c t
    using readEscapeCode_dec_pos[of t 0 c] by auto
  have H: "pos s \<le> pos (snd (readEscapeCode_hex 0 c (s\<lparr>pos := Suc (Suc (pos s))\<rparr>))) - Suc 0"
          "pos s \<le> pos (snd (readEscapeCode_hex 0 c (s\<lparr>pos := Suc (Suc (pos s))\<rparr>)))" for c
    using readEscapeCode_hex_pos[of "s\<lparr>pos := Suc (Suc (pos s))\<rparr>" 0 c] by auto
  have D: "pos s \<le> pos (snd (snd (readEscapeCode_dec 0 c (s\<lparr>pos := Suc (pos s)\<rparr>)))) - Suc 0"
          "pos s \<le> pos (snd (snd (readEscapeCode_dec 0 c (s\<lparr>pos := Suc (pos s)\<rparr>))))" for c
    using readEscapeCode_dec_pos[of "s\<lparr>pos := Suc (pos s)\<rparr>" 0 c] by auto
  show ?thesis
    by (simp add: readEscapeCode_def readChar_def backup_def cc_report_def Let_def split_beta
          hex dec H D)
qed

text \<open>
  The loop of \<^verbatim>\<open>stringLiteral\<close>. The flag of its result tells the \<^verbatim>\<open>break\<close> at the closing
  quote (\<open>True\<close>) from the \<^verbatim>\<open>return\<close> inside the loop at a line end or at the end of the
  buffer (\<open>False\<close>).
\<close>

function stringLiteral_loop :: "SourceLocation \<Rightarrow> Lexer \<Rightarrow> bool \<times> Lexer" where
  "stringLiteral_loop l s =
     (let c = fst (readChar s); s1 = snd (readChar s)
      in if c = DQUOTE then (True, s1)
         else if c = CR \<or> c = LF \<or> c = NUL
           then (False, cc_report l unterminated_string s1)
         else if c = BACKSLASH then
           (let code = fst (readEscapeCode s1);
                code1 = (if code = INT_MAX then int_of_char (CHR ''?'') else code)
            in stringLiteral_loop l (append_literal (char_of code1) (snd (readEscapeCode s1))))
         else stringLiteral_loop l (append_literal c s1))"
  by pat_completeness auto
termination
proof (relation "measure (\<lambda>(l, s). length (chars s) - pos s)", goal_cases)
  case 1
  show ?case by simp
next
  case (2 l s c s1 code code1)
  then have "pos s < length (chars s)"
    by (auto simp: readChar_def char_at_def split: if_splits)
  moreover have "pos s < pos (snd (readEscapeCode s1))" "chars (snd (readEscapeCode s1)) = chars s"
    using readEscapeCode_pos[of s1] 2 by (auto simp: readChar_def)
  ultimately show ?case by (simp add: append_literal_def)
next
  case (3 l s c s1)
  then have "pos s < length (chars s)"
    by (auto simp: readChar_def char_at_def split: if_splits)
  with 3 show ?case by (simp add: append_literal_def readChar_def)
qed

declare stringLiteral_loop.simps [simp del]

definition stringLiteral :: "Token \<Rightarrow> Lexer \<Rightarrow> TokenKind \<times> Token \<times> Lexer" where
  "stringLiteral tok s =
     (let (closed, s1) = stringLiteral_loop (loc (start tok)) (s\<lparr> literal := [] \<rparr>)
      in if \<not> closed then (TOK_STRING_LITERAL, tok, s1)
         else
           (let s2 = append_literal NUL s1
            in (TOK_STRING_LITERAL, tok\<lparr> payload := AtomValue (cc_add s2) \<rparr>, s2)))"

subsection \<open>Identifiers\<close>

text \<open>
  Modelled from the spec: \<^verbatim>\<open>Preprocessor::enterMacro\<close> pushes the macro body as a
  virtual source iff the atom is a defined macro, and says whether it did. The virtual
  source belongs to the preprocessor; this lexer only returns \<^verbatim>\<open>TOK_NONE\<close> to it.
\<close>

definition pp_enterMacro :: "SourceLocation \<Rightarrow> Atom \<Rightarrow> Lexer \<Rightarrow> bool \<times> Lexer" where
  "pp_enterMacro l a s =
     (if map_of (macros s) a \<noteq> None then (True, s\<lparr> events := events s @ [EnterMacro l a] \<rparr>)
      else (False, s))"

definition handleIdentifier :: "Token \<Rightarrow> char \<Rightarrow> Lexer \<Rightarrow> TokenKind \<times> Token \<times> Lexer" where
  "handleIdentifier tok first_char s =
     (let s1 = snd (name first_char s);
          a = cc_add s1;
          tok1 = tok\<lparr> payload := AtomValue a \<rparr>;
          (entered, s2) = (if macro_expansion s1 then pp_enterMacro (loc (start tok1)) a s1
                           else (False, s1))
      in if entered then (TOK_NONE, tok1, s2\<lparr> lexed_tokens_on_line := True \<rparr>)
         else
           (let k = pp_findKeyword a s2
            in if k \<noteq> TOK_NONE then (k, tok1, s2)
               else
                 (let (m, s3) = matchChar (CHR '':'') s2
                  in if m then (TOK_LABEL, tok1, s3) else (TOK_NAME, tok1, s3))))"

subsection \<open>Comments, line ends and whitespace\<close>

function singleLineComment_loop :: "Lexer \<Rightarrow> Lexer" where
  "singleLineComment_loop s =
     (if \<not> IsLineTerminator (peekChar s) then singleLineComment_loop (snd (readChar s)) else s)"
  by pat_completeness auto
termination
  by (relation "measure (\<lambda>s. length (chars s) - pos s)")
     (auto simp: peekChar_def readChar_def dest: not_IsLineTerminator_char_at)

declare singleLineComment_loop.simps [simp del]

definition singleLineComment :: "Token \<Rightarrow> Lexer \<Rightarrow> TokenKind \<times> Token \<times> Lexer" where
  "singleLineComment tok s =
     (let s1 = singleLineComment_loop s
      in (TOK_COMMENT, tok\<lparr> endpos := here s1, kind := TOK_COMMENT \<rparr>, s1))"

text \<open>Advance line heuristics for the newline character \<open>c\<close>.\<close>

definition advanceLine :: "char \<Rightarrow> Lexer \<Rightarrow> error + Lexer" where
  "advanceLine c s =
     (if \<not> (c = CR \<or> c = LF) then Inl (AssertionFailed ''c == CR || c == LF'')
      else
        (let s1 = (if c = CR
                   then (let (c1, s') = readChar s in if c1 \<noteq> LF then backup s' else s')
                   else s)
         in Inr (s1\<lparr> line_number := line_number s1 + 1, lexed_tokens_on_line := False \<rparr>)))"

lemma advanceLine_pos:
  "advanceLine c s = Inr s' \<Longrightarrow> pos s \<le> pos s' \<and> chars s' = chars s"
  by (auto simp: advanceLine_def readChar_def backup_def Let_def split: if_splits)

function multiLineComment_loop :: "SourceLocation \<Rightarrow> Lexer \<Rightarrow> error + Lexer" where
  "multiLineComment_loop l s =
     (let c = fst (readChar s); s1 = snd (readChar s)
      in if c = CR \<or> c = LF then
           (case advanceLine c s1 of
              Inl e \<Rightarrow> Inl e
            | Inr s2 \<Rightarrow> multiLineComment_loop l s2)
         else if c = NUL then Inr (cc_report l unterminated_comment s1)
         else if c = CHR ''*'' then
           (if fst (matchChar (CHR ''/'') s1) then Inr (snd (matchChar (CHR ''/'') s1))
            else multiLineComment_loop l (snd (matchChar (CHR ''/'') s1)))
         else multiLineComment_loop l s1)"
  by pat_completeness auto
termination
proof (relation "measure (\<lambda>(l, s). length (chars s) - pos s)", goal_cases)
  case 1
  show ?case by simp
next
  case (2 l s c s1 s2)
  then have "pos s < length (chars s)"
    by (auto simp: readChar_def char_at_def split: if_splits)
  moreover have "pos s < pos s2" "chars s2 = chars s"
    using advanceLine_pos[of c s1 s2] 2 by (auto simp: readChar_def)
  ultimately show ?case by simp
next
  case (3 l s c s1)
  then have "pos s < length (chars s)"
    by (auto simp: readChar_def char_at_def split: if_splits)
  with 3 show ?case by (auto simp: readChar_def matchChar_def split: if_splits)
next
  case (4 l s c s1)
  then have "pos s < length (chars s)"
    by (auto simp: readChar_def char_at_def split: if_splits)
  with 4 show ?case by (simp add: readChar_def)
qed

declare multiLineComment_loop.simps [simp del]

definition multiLineComment :: "Token \<Rightarrow> Lexer \<Rightarrow> error + (TokenKind \<times> Token \<times> Lexer)" where
  "multiLineComment tok s =
     (case multiLineComment_loop (loc (start tok)) s of
        Inl e \<Rightarrow> Inl e
      | Inr s1 \<Rightarrow> Inr (TOK_COMMENT, tok\<lparr> endpos := here s1, kind := TOK_COMMENT \<rparr>, s1))"

text \<open>Consume characters until there is something to start parsing from.\<close>

function consumeWhitespace :: "Lexer \<Rightarrow> error + (char \<times> Lexer)" where
  "consumeWhitespace s =
     (let c = fst (readChar s); s1 = snd (readChar s)
      in if c = LF \<or> c = CR then
           (if lexing_for_directive s1 then Inr (c, backup s1)
            else
              (case advanceLine c s1 of
                 Inl e \<Rightarrow> Inl e
               | Inr s2 \<Rightarrow> consumeWhitespace s2))
         else if c = CHR '' '' \<or> c = TAB \<or> c = FF then consumeWhitespace s1
         else Inr (c, s1))"
  by pat_completeness auto
termination
proof (relation "measure (\<lambda>s. length (chars s) - pos s)", goal_cases)
  case 1
  show ?case by simp
next
  case (2 s c s1 s2)
  then have "pos s < length (chars s)"
    by (auto simp: readChar_def char_at_def split: if_splits)
  moreover have "pos s < pos s2" "chars s2 = chars s"
    using advanceLine_pos[of c s1 s2] 2 by (auto simp: readChar_def)
  ultimately show ?case by simp
next
  case (3 s c s1)
  then have "pos s < length (chars s)"
    by (auto simp: readChar_def char_at_def split: if_splits)
  with 3 show ?case by (simp add: readChar_def)
qed

declare consumeWhitespace.simps [simp del]

subsection \<open>Tokens inside a directive\<close>

text \<open>
  \<^verbatim>\<open>scan\<close> re-enters itself through the directive engine, and the parser calls \<^verbatim>\<open>next\<close>
  as long as it likes, so the token-level functions take fuel: a bound on the depth of
  re-entry and on the iterations of each token loop. A function that scans tokens takes
  the scanner to call (\<^verbatim>\<open>scan\<close> with the fuel that is left) as its first argument.
\<close>

type_synonym scanner = "Token \<Rightarrow> Lexer \<Rightarrow> error + (TokenKind \<times> Token \<times> Lexer)"

fun directive_next_loop :: "scanner \<Rightarrow> nat \<Rightarrow> Token \<Rightarrow> Lexer \<Rightarrow> error + (Token \<times> Lexer)" where
  "directive_next_loop sc 0 tok s = Inl OutOfFuel"
| "directive_next_loop sc (Suc n) tok s =
     (case sc tok s of
        Inl e \<Rightarrow> Inl e
      | Inr (k, tok1, s1) \<Rightarrow>
          (let tok2 = tok1\<lparr> kind := k \<rparr>
           in if kind tok2 = TOK_COMMENT then directive_next_loop sc n tok2 s1
              else Inr (tok2, s1)))"

definition directive_next ::
  "scanner \<Rightarrow> nat \<Rightarrow> Token \<Rightarrow> Lexer \<Rightarrow> error + (TokenKind \<times> Token \<times> Lexer)" where
  "directive_next sc n tok s =
     (if \<not> lexing_for_directive s then Inl (AssertionFailed ''lexing_for_directive_'')
      else case directive_next_loop sc n tok s of
        Inl e \<Rightarrow> Inl e
      | Inr (tok1, s1) \<Rightarrow> Inr (kind tok1, tok1\<lparr> endpos := here s1 \<rparr>, s1))"

text \<open>
  Eat any trailing characters after a directive, until a newline. \<^verbatim>\<open>suppress_errors_\<close>
  is set for the scope of the call and restored when it returns.
\<close>

fun chewLineAfterDirective_loop ::
  "scanner \<Rightarrow> nat \<Rightarrow> bool \<Rightarrow> bool \<Rightarrow> Lexer \<Rightarrow> error + Lexer" where
  "chewLineAfterDirective_loop sc 0 warnOnNonSpace warned s = Inl OutOfFuel"
| "chewLineAfterDirective_loop sc (Suc n) warnOnNonSpace warned s =
     (case directive_next sc n Token_new s of
        Inl e \<Rightarrow> Inl e
      | Inr (k, tok, s1) \<Rightarrow>
          if k = TOK_EOL then Inr s1
          else if k = TOK_COMMENT then chewLineAfterDirective_loop sc n warnOnNonSpace warned s1
          else if warnOnNonSpace \<and> \<not> warned then
            chewLineAfterDirective_loop sc n warnOnNonSpace True
              (cc_report (loc (start tok)) pp_extra_characters s1)
          else chewLineAfterDirective_loop sc n warnOnNonSpace warned s1)"

definition chewLineAfterDirective :: "scanner \<Rightarrow> nat \<Rightarrow> bool \<Rightarrow> Lexer \<Rightarrow> error + Lexer" where
  "chewLineAfterDirective sc n warnOnNonSpace s =
     (if \<not> lexing_for_directive s then Inl (AssertionFailed ''lexing_for_directive_'')
      else case chewLineAfterDirective_loop sc n warnOnNonSpace False
                  (s\<lparr> suppress_errors := True \<rparr>) of
        Inl e \<Rightarrow> Inl e
      | Inr s1 \<Rightarrow> Inr (s1\<lparr> suppress_errors := suppress_errors s \<rparr>))"

subsection \<open>The if-stack and the skip engine\<close>

definition currentIf :: "Lexer \<Rightarrow> IfContext option" where
  "currentIf s = (if ifstack s = [] then None else Some (last (ifstack s)))"

text \<open>Writes through the pointer that \<^verbatim>\<open>currentIf()\<close> returned.\<close>

definition set_currentIf :: "IfContext \<Rightarrow> Lexer \<Rightarrow> Lexer" where
  "set_currentIf ix s = s\<lparr> ifstack := butlast (ifstack s) @ [ix] \<rparr>"

text \<open>The test \<^verbatim>\<open>!currentIf() || currentIf()->state == IfContext::Active\<close>.\<close>

definition no_if_or_active :: "Lexer \<Rightarrow> bool" where
  "no_if_or_active s = (case currentIf s of None \<Rightarrow> True | Some ix \<Rightarrow> state ix = Active)"

definition handleDirectiveWhileInactive :: "scanner \<Rightarrow> nat \<Rightarrow> Lexer \<Rightarrow> error + Lexer" where
  "handleDirectiveWhileInactive sc n s =
     (let s0 = s\<lparr> lexing_for_directive := True \<rparr>;
          b = lastpos s0;
          (directive, s1) = maybeKeyword (CHR ''#'') s0;
          r =
            (if directive = TOK_M_IF then
               Inr (s1\<lparr> ifstack := ifstack s1 @ [IfContext_new b Dead] \<rparr>)
             else if directive = TOK_M_ELSE then
               (case currentIf s1 of
                  None \<Rightarrow> Inl NullDereference
                | Some ix \<Rightarrow>
                    if state ix = Dead then Inr s1
                    else
                      (let s2 = (if isSet (elseloc ix) then report b else_declared_twice s1
                                 else s1);
                           ix1 = ix\<lparr> elseloc := b \<rparr>;
                           ix2 = (if state ix1 = Ignoring then ix1\<lparr> state := Active \<rparr>
                                  else ix1\<lparr> state := Inactive \<rparr>)
                       in chewLineAfterDirective sc n True (set_currentIf ix2 s2)))
             else if directive = TOK_M_ENDIF then
               (if ifstack s1 = [] then Inl (AssertionFailed ''!ifstack_.empty()'')
                else chewLineAfterDirective sc n True (s1\<lparr> ifstack := butlast (ifstack s1) \<rparr>))
             else Inr s1)
      in case r of
           Inl e \<Rightarrow> Inl e
         | Inr s3 \<Rightarrow> Inr (s3\<lparr> lexing_for_directive := lexing_for_directive s \<rparr>))"

definition checkIfStackAtEndOfFile :: "Lexer \<Rightarrow> Lexer" where
  "checkIfStackAtEndOfFile s =
     (case currentIf s of
        None \<Rightarrow> s
      | Some ix \<Rightarrow>
          if isSet (elseloc ix) then cc_report (elseloc ix) unterminated_else s
          else cc_report (first ix) unterminated_if s)"

function handleIfContext_skip :: "char \<Rightarrow> Lexer \<Rightarrow> char \<times> Lexer" where
  "handleIfContext_skip c s =
     (if \<not> IsLineTerminator c then handleIfContext_skip (fst (readChar s)) (snd (readChar s))
      else (c, s))"
  by pat_completeness auto
termination
  by (relation "measure (\<lambda>(c, s). 2 * (length (chars s) - pos s) + (if IsLineTerminator c then 0 else 1))")
     (auto simp: readChar_def char_at_def IsLineTerminator_def split: if_splits)

declare handleIfContext_skip.simps [simp del]

fun handleIfContext_loop :: "scanner \<Rightarrow> nat \<Rightarrow> Lexer \<Rightarrow> error + Lexer" where
  "handleIfContext_loop sc 0 s = Inl OutOfFuel"
| "handleIfContext_loop sc (Suc n) s =
     (let (c, s1) = firstNonSpaceChar s
      in case (if c = CHR ''#'' then
                 (case handleDirectiveWhileInactive sc n s1 of
                    Inl e \<Rightarrow> Inl e
                  | Inr s2 \<Rightarrow> Inr (no_if_or_active s2, s2))
               else Inr (False, s1)) of
           Inl e \<Rightarrow> Inl e
         | Inr (back_to_lexing, s2) \<Rightarrow>
             if back_to_lexing then Inr s2
             else
               (let (c1, s3) = handleIfContext_skip c s2
                in if c1 = NUL then Inr s3
                   else case advanceLine c1 s3 of
                     Inl e \<Rightarrow> Inl e
                   | Inr s4 \<Rightarrow> handleIfContext_loop sc n s4))"

definition handleIfContext :: "scanner \<Rightarrow> nat \<Rightarrow> Lexer \<Rightarrow> error + Lexer" where
  "handleIfContext sc n s =
     (if \<not> (peekChar s = CR \<or> peekChar s = LF \<or> peekChar s = NUL)
        then Inl (AssertionFailed ''peekChar() is CR, LF or NUL'')
      else if peekChar s = NUL then Inr s
      else case advanceLine (peekChar s) s of
        Inl e \<Rightarrow> Inl e
      | Inr s1 \<Rightarrow> handleIfContext_loop sc n s1)"

subsection \<open>The preprocessor and the compile context, as the lexer calls them\<close>

text \<open>
  Modelled from the spec: the members of \<^verbatim>\<open>Preprocessor\<close> and \<^verbatim>\<open>CompileContext\<close> that the
  directive engine calls; neither class is among the sources. \<^verbatim>\<open>defineMacro\<close> registers a
  replacement list keyed by atom; \<^verbatim>\<open>removeMacro\<close> drops it and says whether there was
  one; \<^verbatim>\<open>enterFile\<close>, \<^verbatim>\<open>setNextDeprecationMessage\<close> and \<^verbatim>\<open>ChangePragmaDynamic\<close> are
  recorded as requests; \<^verbatim>\<open>handleEndOfFile\<close> has the lexer check its if-stack and, with
  no other file to resume, answers false.
\<close>

definition pp_defineMacro :: "Atom \<Rightarrow> SourceLocation \<Rightarrow> Token list \<Rightarrow> Lexer \<Rightarrow> Lexer" where
  "pp_defineMacro a l toks s = s\<lparr> macros := (a, toks) # macros s \<rparr>"

definition pp_removeMacro :: "SourceLocation \<Rightarrow> Atom \<Rightarrow> Lexer \<Rightarrow> bool \<times> Lexer" where
  "pp_removeMacro l a s =
     (map_of (macros s) a \<noteq> None, s\<lparr> macros := filter (\<lambda>p. fst p \<noteq> a) (macros s) \<rparr>)"

definition pp_enterFile ::
  "TokenKind \<Rightarrow> SourceLocation \<Rightarrow> string \<Rightarrow> bool \<Rightarrow> Lexer \<Rightarrow> Lexer" where
  "pp_enterFile directive l file relative s =
     s\<lparr> events := events s @ [EnterFile directive l file relative] \<rparr>"

definition pp_setNextDeprecationMessage :: "string \<Rightarrow> Lexer \<Rightarrow> Lexer" where
  "pp_setNextDeprecationMessage msg s = s\<lparr> events := events s @ [DeprecationMessage msg] \<rparr>"

definition cc_ChangePragmaDynamic :: "int \<Rightarrow> Lexer \<Rightarrow> bool \<times> Lexer" where
  "cc_ChangePragmaDynamic v s = (True, s\<lparr> events := events s @ [PragmaDynamic v] \<rparr>)"

definition pp_handleEndOfFile :: "Lexer \<Rightarrow> bool \<times> Lexer" where
  "pp_handleEndOfFile s = (False, checkIfStackAtEndOfFile s)"

definition pp_addComment :: "CommentPos \<Rightarrow> SourceLocation \<Rightarrow> SourceLocation \<Rightarrow> Lexer \<Rightarrow> Lexer" where
  "pp_addComment p l r s = s\<lparr> comments := comments s @ [(p, l, r)] \<rparr>"

text \<open>
  Modelled from the spec: \<^verbatim>\<open>Preprocessor::eval\<close> evaluates the rest of the line as a
  constant integer expression, reading tokens through the lexer until the end of the
  line, and answers whether it succeeded. The expression evaluator is not among the
  sources; the model covers the expressions that are a single integer or hexadecimal
  literal, whose value is the literal's, and gives \<open>NotModelled\<close> for every other line.
\<close>

definition pp_eval :: "scanner \<Rightarrow> nat \<Rightarrow> Lexer \<Rightarrow> error + (bool \<times> int \<times> Lexer)" where
  "pp_eval sc n s =
     (case directive_next sc n Token_new s of
        Inl e \<Rightarrow> Inl e
      | Inr (k, tok, s1) \<Rightarrow>
          (case payload tok of
             IntValue v \<Rightarrow>
               if k = TOK_INTEGER_LITERAL \<or> k = TOK_HEX_LITERAL then
                 (case directive_next sc n Token_new s1 of
                    Inl e \<Rightarrow> Inl e
                  | Inr (k2, tok2, s2) \<Rightarrow>
                      if k2 = TOK_EOL then Inr (True, uint v, s2) else Inl NotModelled)
               else Inl NotModelled
           | _ \<Rightarrow> Inl NotModelled))"

subsection \<open>The directive engine\<close>

fun getMacroTokens_skip :: "scanner \<Rightarrow> nat \<Rightarrow> Token \<Rightarrow> Lexer \<Rightarrow> error + (Token \<times> Lexer)" where
  "getMacroTokens_skip sc 0 tok s = Inl OutOfFuel"
| "getMacroTokens_skip sc (Suc n) tok s =
     (case directive_next sc n tok s of
        Inl e \<Rightarrow> Inl e
      | Inr (k, tok1, s1) \<Rightarrow>
          if k = TOK_COMMENT then getMacroTokens_skip sc n tok1 s1 else Inr (tok1, s1))"

fun getMacroTokens_loop ::
  "scanner \<Rightarrow> nat \<Rightarrow> Token list \<Rightarrow> Lexer \<Rightarrow> error + (Token list \<times> Lexer)" where
  "getMacroTokens_loop sc 0 tokens s = Inl OutOfFuel"
| "getMacroTokens_loop sc (Suc n) tokens s =
     (case getMacroTokens_skip sc n Token_new s of
        Inl e \<Rightarrow> Inl e
      | Inr (tok, s1) \<Rightarrow>
          if kind tok = TOK_EOL then Inr (tokens, s1)
          else getMacroTokens_loop sc n (tokens @ [tok]) s1)"

definition getMacroTokens :: "scanner \<Rightarrow> nat \<Rightarrow> Lexer \<Rightarrow> error + (Token list \<times> Lexer)" where
  "getMacroTokens sc n s =
     (case getMacroTokens_loop sc n [] (s\<lparr> macro_expansion := False \<rparr>) of
        Inl e \<Rightarrow> Inl e
      | Inr (tokens, s1) \<Rightarrow> Inr (tokens, s1\<lparr> macro_expansion := macro_expansion s \<rparr>))"

definition atom :: "Token \<Rightarrow> Atom" where
  "atom tok = (case payload tok of AtomValue a \<Rightarrow> a | _ \<Rightarrow> [])"

text \<open>
  The file name of an \<^verbatim>\<open>#include\<close>: \<open>False\<close> when the line ends before the closing
  delimiter.
\<close>

function include_loop :: "char \<Rightarrow> Lexer \<Rightarrow> bool \<times> Lexer" where
  "include_loop match s =
     (if IsLineTerminator (peekChar s) then (False, s)
      else if fst (readChar s) = match then (True, snd (readChar s))
      else include_loop match (append_literal (fst (readChar s)) (snd (readChar s))))"
  by pat_completeness auto
termination
  by (relation "measure (\<lambda>(m, s). length (chars s) - pos s)")
     (auto simp: peekChar_def readChar_def append_literal_def dest: not_IsLineTerminator_char_at)

declare include_loop.simps [simp del]

definition handlePragma :: "scanner \<Rightarrow> nat \<Rightarrow> Lexer \<Rightarrow> error + (bool \<times> Lexer)" where
  "handlePragma sc n s =
     (case directive_next sc n Token_new s of
        Inl e \<Rightarrow> Inl e
      | Inr (k, tok, s1) \<Rightarrow>
          if k \<noteq> TOK_NAME
            then Inr (False, cc_report (loc (start tok)) pragma_must_have_name s1)
          else if atom tok = ''deprecated'' then
            (let (b, e, s2) = readUntilEnd s1
             in Inr (True, pp_setNextDeprecationMessage (take (e - b) (drop b (chars s2))) s2))
          else if atom tok = ''newdecls'' then
            (case directive_next sc n tok (s1\<lparr> macro_expansion := False \<rparr>) of
               Inl e \<Rightarrow> Inl e
             | Inr (k2, tok2, s2) \<Rightarrow>
                 (let s3 = s2\<lparr> macro_expansion := macro_expansion s1 \<rparr>
                  in if k2 \<noteq> TOK_NAME
                       then Inr (False, cc_report (loc (start tok2)) bad_pragma_newdecls s3)
                     else if atom tok2 = ''required''
                       then Inr (True, s3\<lparr> RequireNewdecls := True \<rparr>)
                     else if atom tok2 = ''optional''
                       then Inr (True, s3\<lparr> RequireNewdecls := False \<rparr>)
                     else Inr (False, cc_report (loc (start tok2)) bad_pragma_newdecls s3)))
          else if atom tok = ''semicolon'' then
            (case pp_eval sc n s1 of
               Inl e \<Rightarrow> Inl e
             | Inr (ok, v, s2) \<Rightarrow> Inr (ok, s2))
          else if atom tok = ''dynamic'' then
            (case pp_eval sc n s1 of
               Inl e \<Rightarrow> Inl e
             | Inr (ok, v, s2) \<Rightarrow>
                 if \<not> ok then Inr (False, s2) else Inr (cc_ChangePragmaDynamic v s2))
          else Inr (False, cc_report (loc (start tok)) unknown_pragma s1))"

text \<open>Returns whether or not the user should be warned of trailing characters.\<close>

definition handlePreprocessorDirective ::
  "scanner \<Rightarrow> nat \<Rightarrow> Lexer \<Rightarrow> error + (bool \<times> Lexer)" where
  "handlePreprocessorDirective sc n s =
     (let b = lastpos s;
          (directive, s1) = maybeKeyword (CHR ''#'') s
      in if directive = TOK_M_DEFINE then
           (case directive_next sc n Token_new s1 of
              Inl e \<Rightarrow> Inl e
            | Inr (k, tok, s2) \<Rightarrow>
                if k \<noteq> TOK_NAME
                  then Inr (False, cc_report (loc (start tok)) bad_directive_token s2)
                else if peekChar s2 = CHR ''(''
                  then Inr (False, report (pos_loc s2) macro_functions_unsupported s2)
                else
                  (case getMacroTokens sc n s2 of
                     Inl e \<Rightarrow> Inl e
                   | Inr (tokens, s3) \<Rightarrow>
                       Inr (False, pp_defineMacro (atom tok) (loc (start tok)) tokens s3)))
         else if directive = TOK_M_IF then
           (case pp_eval sc n s1 of
              Inl e \<Rightarrow> Inl e
            | Inr (errored, val, s2) \<Rightarrow>
                Inr (\<not> errored,
                     s2\<lparr> ifstack := ifstack s2 @
                           [IfContext_new b (if val \<noteq> 0 then Active else Ignoring)] \<rparr>))
         else if directive = TOK_M_ELSE then
           (case currentIf s1 of
              None \<Rightarrow> Inr (False, report b else_without_if s1)
            | Some ix \<Rightarrow>
                if isSet (elseloc ix) then Inr (False, report b else_declared_twice s1)
                else
                  (let ix1 = ix\<lparr> elseloc := b \<rparr>;
                       ix2 = (if state ix1 = Ignoring then ix1\<lparr> state := Active \<rparr>
                              else ix1\<lparr> state := Inactive \<rparr>)
                   in Inr (True, set_currentIf ix2 s1)))
         else if directive = TOK_M_ENDIF then
           (case currentIf s1 of
              None \<Rightarrow> Inr (False, report b endif_without_if s1)
            | Some ix \<Rightarrow> Inr (True, s1\<lparr> ifstack := butlast (ifstack s1) \<rparr>))
         else if directive = TOK_M_UNDEF then
           (case directive_next sc n Token_new (s1\<lparr> macro_expansion := False \<rparr>) of
              Inl e \<Rightarrow> Inl e
            | Inr (k, tok, s2) \<Rightarrow>
                (let (ret, s3) =
                       (if k \<noteq> TOK_NAME
                        then (False, cc_report (loc (start tok)) bad_directive_token s2)
                        else pp_removeMacro (loc (start tok)) (atom tok) s2)
                 in Inr (ret, s3\<lparr> macro_expansion := macro_expansion s1 \<rparr>)))
         else if directive = TOK_M_ENDINPUT then
           Inr (False, s1\<lparr> pos := length (chars s1), ifstack := [] \<rparr>)
         else if directive = TOK_M_INCLUDE \<or> directive = TOK_M_TRYINCLUDE then
           (let (c, s2) = firstNonSpaceChar s1
            in if c \<noteq> DQUOTE \<and> c \<noteq> CHR ''<''
                 then Inr (False, report (lastpos s2) bad_include_syntax s2)
               else
                 (let match = (if c = DQUOTE then DQUOTE else CHR ''>'');
                      (found, s3) = include_loop match (s2\<lparr> literal := [] \<rparr>)
                  in if \<not> found then Inr (False, report (lastpos s3) bad_include_syntax s3)
                     else
                       (let s4 = append_literal NUL s3
                        in case chewLineAfterDirective sc n True s4 of
                             Inl e \<Rightarrow> Inl e
                           | Inr s5 \<Rightarrow>
                               Inr (False,
                                    pp_enterFile directive b (cc_add s5) (match = DQUOTE) s5))))
         else if directive = TOK_M_PRAGMA then handlePragma sc n s1
         else Inr (False, report b unknown_directive s1))"

definition enterPreprocessorDirective :: "scanner \<Rightarrow> nat \<Rightarrow> Lexer \<Rightarrow> error + Lexer" where
  "enterPreprocessorDirective sc n s =
     (let s0 = s\<lparr> lexed_tokens_on_line := True \<rparr>
      in case handlePreprocessorDirective sc n (s0\<lparr> lexing_for_directive := True \<rparr>) of
           Inl e \<Rightarrow> Inl e
         | Inr (warnOnExtraChars, s1) \<Rightarrow>
             (case chewLineAfterDirective sc n warnOnExtraChars s1 of
                Inl e \<Rightarrow> Inl e
              | Inr s2 \<Rightarrow>
                  (let s3 = s2\<lparr> lexing_for_directive := lexing_for_directive s0 \<rparr>
                   in if \<not> no_if_or_active s3 then
                        (case handleIfContext sc n s3 of
                           Inl e \<Rightarrow> Inl e
                         | Inr s4 \<Rightarrow>
                             if peekChar s4 = NUL then Inr s4
                             else if \<not> no_if_or_active s4
                               then Inl (AssertionFailed
                                 ''!currentIf() || currentIf()->state == IfContext::Active'')
                             else Inr s4)
                      else Inr s3)))"

subsection \<open>The main scanner\<close>

text \<open>
  The \<^verbatim>\<open>switch\<close> of \<^verbatim>\<open>scan\<close> on the first byte of the token, after \<^verbatim>\<open>tok->init\<close>.
  \<^verbatim>\<open>matchChar\<close> is tried in the order of the source.
\<close>

definition match2 ::
  "char \<Rightarrow> TokenKind \<Rightarrow> TokenKind \<Rightarrow> Token \<Rightarrow> Lexer \<Rightarrow> error + (TokenKind \<times> Token \<times> Lexer)" where
  "match2 c1 k1 k0 tok s =
     (if fst (matchChar c1 s) then Inr (k1, tok, snd (matchChar c1 s)) else Inr (k0, tok, s))"

definition match3 ::
  "char \<Rightarrow> TokenKind \<Rightarrow> char \<Rightarrow> TokenKind \<Rightarrow> TokenKind \<Rightarrow> Token \<Rightarrow> Lexer
     \<Rightarrow> error + (TokenKind \<times> Token \<times> Lexer)" where
  "match3 c1 k1 c2 k2 k0 tok s =
     (if fst (matchChar c1 s) then Inr (k1, tok, snd (matchChar c1 s))
      else match2 c2 k2 k0 tok s)"

definition scan_switch :: "char \<Rightarrow> Token \<Rightarrow> Lexer \<Rightarrow> error + (TokenKind \<times> Token \<times> Lexer)" where
  "scan_switch c tok s =
     (if c = NUL then
        (if lexing_for_directive s then Inr (TOK_EOL, tok, s)
         else (let (resumed, s1) = pp_handleEndOfFile s
               in if resumed then Inr (TOK_NONE, tok, s1) else Inr (TOK_EOF, tok, s1)))
      else if c = CHR '';'' then Inr (TOK_SEMICOLON, tok, s)
      else if c = CHR ''{'' then Inr (TOK_LBRACE, tok, s)
      else if c = CHR ''}'' then Inr (TOK_RBRACE, tok, s)
      else if c = CHR ''('' then Inr (TOK_LPAREN, tok, s)
      else if c = CHR '')'' then Inr (TOK_RPAREN, tok, s)
      else if c = CHR ''['' then Inr (TOK_LBRACKET, tok, s)
      else if c = CHR '']'' then Inr (TOK_RBRACKET, tok, s)
      else if c = CHR ''~'' then Inr (TOK_TILDE, tok, s)
      else if c = CHR ''?'' then Inr (TOK_QMARK, tok, s)
      else if c = CHR '':'' then Inr (TOK_COLON, tok, s)
      else if c = CHR '','' then Inr (TOK_COMMA, tok, s)
      else if c = CR \<or> c = LF then
        (if \<not> lexing_for_directive s then Inl (AssertionFailed ''lexing_for_directive_'')
         else Inr (TOK_EOL, tok, s))
      else if c = CHR ''.'' then
        (let (m1, s1) = matchChar (CHR ''.'') s
         in if m1 then
              (let (m2, s2) = matchChar (CHR ''.'') s1
               in if m2 then Inr (TOK_ELLIPSES, tok, s2) else Inr (TOK_DOT, tok, backup s2))
            else Inr (TOK_DOT, tok, s1))
      else if c = CHR ''/'' then
        (if fst (matchChar (CHR ''='') s)
           then Inr (TOK_ASSIGN_DIV, tok, snd (matchChar (CHR ''='') s))
         else if fst (matchChar (CHR ''/'') s)
           then Inr (singleLineComment tok (snd (matchChar (CHR ''/'') s)))
         else if fst (matchChar (CHR ''*'') s)
           then multiLineComment tok (snd (matchChar (CHR ''*'') s))
         else Inr (TOK_SLASH, tok, s))
      else if c = CHR ''*'' then match2 (CHR ''='') TOK_ASSIGN_MUL TOK_STAR tok s
      else if c = CHR ''+'' then
        match3 (CHR ''='') TOK_ASSIGN_ADD (CHR ''+'') TOK_INCREMENT TOK_PLUS tok s
      else if c = CHR ''&'' then
        match3 (CHR ''='') TOK_ASSIGN_BITAND (CHR ''&'') TOK_AND TOK_BITAND tok s
      else if c = CHR ''|'' then
        match3 (CHR ''='') TOK_ASSIGN_BITOR (CHR ''|'') TOK_OR TOK_BITOR tok s
      else if c = CHR ''^'' then match2 (CHR ''='') TOK_ASSIGN_BITXOR TOK_BITXOR tok s
      else if c = CHR ''%'' then match2 (CHR ''='') TOK_ASSIGN_MOD TOK_PERCENT tok s
      else if c = CHR ''-'' then
        match3 (CHR ''='') TOK_ASSIGN_SUB (CHR ''-'') TOK_DECREMENT TOK_MINUS tok s
      else if c = CHR ''!'' then match2 (CHR ''='') TOK_NOTEQUALS TOK_NOT tok s
      else if c = CHR ''='' then match2 (CHR ''='') TOK_EQUALS TOK_ASSIGN tok s
      else if c = CHR ''<'' then
        (if fst (matchChar (CHR ''='') s) then Inr (TOK_LE, tok, snd (matchChar (CHR ''='') s))
         else if fst (matchChar (CHR ''<'') s)
           then match2 (CHR ''='') TOK_ASSIGN_SHL TOK_SHL tok (snd (matchChar (CHR ''<'') s))
         else Inr (TOK_LT, tok, s))
      else if c = CHR ''>'' then
        (if fst (matchChar (CHR ''='') s) then Inr (TOK_GE, tok, snd (matchChar (CHR ''='') s))
         else if fst (matchChar (CHR ''>'') s) then
           (let s1 = snd (matchChar (CHR ''>'') s)
            in if fst (matchChar (CHR ''>'') s1)
                 then match2 (CHR ''='') TOK_ASSIGN_USHR TOK_USHR tok (snd (matchChar (CHR ''>'') s1))
               else Inr (TOK_SHR, tok, s1))
         else Inr (TOK_GT, tok, s))
      else if c = SQUOTE then Inr (charLiteral tok s)
      else if c = DQUOTE then Inr (stringLiteral tok s)
      else if IsDigit c then handleNumber tok c s
      else if IsIdentStart c then Inr (handleIdentifier tok c s)
      else if \<not> lexing_for_directive s
        then Inr (TOK_UNKNOWN, tok, cc_report (loc (start tok)) unexpected_char s)
      else Inr (TOK_UNKNOWN, tok, s))"

definition scan_step :: "scanner \<Rightarrow> nat \<Rightarrow> scanner" where
  "scan_step sc n tok s =
     (case consumeWhitespace s of
        Inl e \<Rightarrow> Inl e
      | Inr (c, s1) \<Rightarrow>
          if c = CHR ''#'' \<and> \<not> lexed_tokens_on_line s1 then
            (case enterPreprocessorDirective sc n s1 of
               Inl e \<Rightarrow> Inl e
             | Inr s2 \<Rightarrow> Inr (TOK_NONE, tok, s2))
          else
            scan_switch c (Token_init \<lparr> loc = lastpos s1, line = line_number s1 \<rparr> tok) s1)"

fun scan :: "nat \<Rightarrow> scanner" where
  "scan 0 tok s = Inl OutOfFuel"
| "scan (Suc n) tok s = scan_step (scan n) n tok s"

subsection \<open>Comment blocks\<close>

text \<open>
  A front comment is a sequence of comments at most one line away from a non-comment
  token that is the first token on its line. The loop returns the \<^verbatim>\<open>end\<close> it reached, or
  nothing where the source returns before \<^verbatim>\<open>addComment\<close>.
\<close>

fun processFrontCommentBlock_loop ::
  "scanner \<Rightarrow> nat \<Rightarrow> TokenPos \<Rightarrow> TokenPos \<Rightarrow> TokenPos \<Rightarrow> Token \<Rightarrow> Lexer
     \<Rightarrow> error + (TokenPos option \<times> Token \<times> Lexer)" where
  "processFrontCommentBlock_loop sc 0 st en last_end tok s = Inl OutOfFuel"
| "processFrontCommentBlock_loop sc (Suc n) st en last_end tok s =
     (case sc tok s of
        Inl e \<Rightarrow> Inl e
      | Inr (k, tok1, s1) \<Rightarrow>
          (let tok2 = tok1\<lparr> kind := k \<rparr>
           in if kind tok2 \<noteq> TOK_COMMENT then
                (if line st = line (start tok2) then Inr (None, tok2, s1)
                 else if line (start tok2) \<noteq> line last_end then Inr (Some last_end, tok2, s1)
                 else Inr (Some en, tok2, s1))
              else if line (start tok2) > line last_end + 1 then Inr (Some last_end, tok2, s1)
              else processFrontCommentBlock_loop sc n st last_end (endpos tok2) tok2 s1))"

definition processFrontCommentBlock ::
  "scanner \<Rightarrow> nat \<Rightarrow> Token \<Rightarrow> Lexer \<Rightarrow> error + (Token \<times> Lexer)" where
  "processFrontCommentBlock sc n tok s =
     (case processFrontCommentBlock_loop sc n (start tok) TokenPos_unset TokenPos_unset tok s of
        Inl e \<Rightarrow> Inl e
      | Inr (None, tok1, s1) \<Rightarrow> Inr (tok1, s1)
      | Inr (Some en, tok1, s1) \<Rightarrow>
          if \<not> isSet (loc en) then Inr (tok1, s1)
          else Inr (tok1, pp_addComment Front (loc (start tok)) (loc en) s1))"

text \<open>
  A tail comment is a sequence of comments appearing after a token, ending after a
  blank line or a non-comment token. The loop of the source runs
  \<^verbatim>\<open>while ((tok->kind = scan(tok)) != TOK_COMMENT)\<close>.
\<close>

fun processTailCommentBlock_loop ::
  "scanner \<Rightarrow> nat \<Rightarrow> TokenPos \<Rightarrow> Token \<Rightarrow> Lexer \<Rightarrow> error + (TokenPos \<times> Token \<times> Lexer)" where
  "processTailCommentBlock_loop sc 0 en tok s = Inl OutOfFuel"
| "processTailCommentBlock_loop sc (Suc n) en tok s =
     (case sc tok s of
        Inl e \<Rightarrow> Inl e
      | Inr (k, tok1, s1) \<Rightarrow>
          (let tok2 = tok1\<lparr> kind := k \<rparr>
           in if kind tok2 \<noteq> TOK_COMMENT then
                (if line (start tok2) > line en + 1 then Inr (en, tok2, s1)
                 else processTailCommentBlock_loop sc n (endpos tok2) tok2 s1)
              else Inr (en, tok2, s1)))"

definition processTailCommentBlock ::
  "scanner \<Rightarrow> nat \<Rightarrow> Token \<Rightarrow> Lexer \<Rightarrow> error + (Token \<times> Lexer)" where
  "processTailCommentBlock sc n tok s =
     (case processTailCommentBlock_loop sc n (endpos tok) tok s of
        Inl e \<Rightarrow> Inl e
      | Inr (en, tok1, s1) \<Rightarrow>
          Inr (tok1, pp_addComment Tail (loc (start tok)) (loc en) s1))"

fun handleComments_skip :: "scanner \<Rightarrow> nat \<Rightarrow> Token \<Rightarrow> Lexer \<Rightarrow> error + (Token \<times> Lexer)" where
  "handleComments_skip sc 0 tok s = Inl OutOfFuel"
| "handleComments_skip sc (Suc n) tok s =
     (if kind tok = TOK_COMMENT then
        (case sc tok s of
           Inl e \<Rightarrow> Inl e
         | Inr (k, tok1, s1) \<Rightarrow> handleComments_skip sc n (tok1\<lparr> kind := k \<rparr>) s1)
      else Inr (tok, s))"

fun handleComments_front :: "scanner \<Rightarrow> nat \<Rightarrow> Token \<Rightarrow> Lexer \<Rightarrow> error + (Token \<times> Lexer)" where
  "handleComments_front sc 0 tok s = Inl OutOfFuel"
| "handleComments_front sc (Suc n) tok s =
     (if kind tok = TOK_COMMENT then
        (case processFrontCommentBlock sc n tok s of
           Inl e \<Rightarrow> Inl e
         | Inr (tok1, s1) \<Rightarrow> handleComments_front sc n tok1 s1)
      else Inr (tok, s))"

definition handleComments :: "scanner \<Rightarrow> nat \<Rightarrow> Token \<Rightarrow> Lexer \<Rightarrow> error + (Token \<times> Lexer)" where
  "handleComments sc n tok s =
     (if \<not> TraceComments s \<or> lexing_for_directive s then handleComments_skip sc n tok s
      else case (if lexed_tokens_on_line s then processTailCommentBlock sc n tok s
                 else Inr (tok, s)) of
        Inl e \<Rightarrow> Inl e
      | Inr (tok1, s1) \<Rightarrow>
          if lexed_tokens_on_line s1 then Inl (AssertionFailed ''!lexed_tokens_on_line_'')
          else handleComments_front sc n tok1 s1)"

subsection \<open>The entry point\<close>

text \<open>\<^verbatim>\<open>Lexer::next\<close>, with \<open>n\<close> the fuel for the scans it makes.\<close>

definition lexer_next :: "nat \<Rightarrow> Token \<Rightarrow> Lexer \<Rightarrow> error + (TokenKind \<times> Token \<times> Lexer)" where
  "lexer_next n tok s =
     (case scan n tok s of
        Inl e \<Rightarrow> Inl e
      | Inr (k, tok1, s1) \<Rightarrow>
          (case (if k = TOK_COMMENT then
                   (case handleComments (scan n) n (tok1\<lparr> kind := k \<rparr>) s1 of
                      Inl e \<Rightarrow> Inl e
                    | Inr (tok2, s2) \<Rightarrow>
                        if kind tok2 = TOK_COMMENT
                          then Inl (AssertionFailed ''tok->kind != TOK_COMMENT'')
                        else Inr (tok2, s2))
                 else Inr (tok1\<lparr> kind := k \<rparr>, s1)) of
             Inl e \<Rightarrow> Inl e
           | Inr (tok3, s3) \<Rightarrow>
               (let s4 = s3\<lparr> lexed_tokens_on_line := (kind tok3 \<noteq> TOK_NONE) \<rparr>
                in Inr (kind tok3, tok3\<lparr> endpos := here s4 \<rparr>, s4))))"

text \<open>
  The caller of \<^verbatim>\<open>next\<close>: it asks again when it gets \<^verbatim>\<open>TOK_NONE\<close>, and stops at
  \<^verbatim>\<open>TOK_EOF\<close>. \<open>lex\<close> gives the concrete tokens in order, the \<^verbatim>\<open>TOK_EOF\<close> token last, as
  pairs of kind and payload, and the state the lexer is left in. The second argument
  bounds the number of calls.
\<close>

fun lex :: "nat \<Rightarrow> nat \<Rightarrow> Lexer \<Rightarrow> error + ((TokenKind \<times> TokenValue) list \<times> Lexer)" where
  "lex n 0 s = Inl OutOfFuel"
| "lex n (Suc m) s =
     (case lexer_next n Token_new s of
        Inl e \<Rightarrow> Inl e
      | Inr (k, tok, s1) \<Rightarrow>
          if k = TOK_EOF then Inr ([(k, payload tok)], s1)
          else if k = TOK_NONE then lex n m s1
          else (case lex n m s1 of
                  Inl e \<Rightarrow> Inl e
                | Inr (toks, s2) \<Rightarrow> Inr ((k, payload tok) # toks, s2)))"

text \<open>The first \<open>m\<close> calls of \<^verbatim>\<open>next\<close>: the kinds returned and the state reached.\<close>

fun next_calls :: "nat \<Rightarrow> nat \<Rightarrow> Lexer \<Rightarrow> error + (TokenKind list \<times> Lexer)" where
  "next_calls n 0 s = Inr ([], s)"
| "next_calls n (Suc m) s =
     (case lexer_next n Token_new s of
        Inl e \<Rightarrow> Inl e
      | Inr (k, tok, s1) \<Rightarrow>
          (case next_calls n m s1 of
             Inl e \<Rightarrow> Inl e
           | Inr (ks, s2) \<Rightarrow> Inr (k # ks, s2)))"

section \<open>Evaluation\<close>

text \<open>The equations that evaluate the lexer on a concrete buffer.\<close>

lemmas cursor_defs =
  char_at_def readChar_def peekChar_def matchChar_def backup_def pos_loc_def lastpos_def
  here_def append_literal_def literal_length_def cc_add_def

lemmas char_defs =
  IsDigit_def IsHexDigit_def IsLineTerminator_def IsSkipSpace_def IsIdentStart_def
  IsIdentChar_def int_of_char_def INT_MAX_def tolower_def

lemmas token_defs =
  Token_new_def Token_init_def TokenPos_unset_def IfContext_new_def isSet_def

lemmas report_defs = cc_report_def report_def

lemmas literal_defs =
  hexLiteral_def numberLiteral_def HexDigitToValue_def TryUint64Multiply_def
  TryUint64Add_def handleNumber_def name_def maybeKeyword_def pp_findKeyword_def
  readEscapeCode_def charLiteral_def stringLiteral_def pp_enterMacro_def
  handleIdentifier_def singleLineComment_def advanceLine_def multiLineComment_def

lemmas loop_simps =
  skipSpaces.simps firstNonSpaceChar_loop.simps readUntilEnd_scan.simps
  readUntilEnd_trim.simps hexLiteral_loop.simps numberLiteral_digits.simps
  numberLiteral_more.simps name_loop.simps readEscapeCode_hex.simps
  readEscapeCode_dec.simps stringLiteral_loop.simps singleLineComment_loop.simps
  multiLineComment_loop.simps consumeWhitespace.simps handleIfContext_skip.simps
  include_loop.simps

lemmas directive_defs =
  directive_next_def chewLineAfterDirective_def currentIf_def set_currentIf_def
  no_if_or_active_def handleDirectiveWhileInactive_def checkIfStackAtEndOfFile_def
  handleIfContext_def firstNonSpaceChar_def readUntilEnd_def pp_defineMacro_def
  pp_removeMacro_def pp_enterFile_def pp_setNextDeprecationMessage_def
  cc_ChangePragmaDynamic_def pp_handleEndOfFile_def pp_addComment_def pp_eval_def
  getMacroTokens_def atom_def handlePragma_def handlePreprocessorDirective_def
  enterPreprocessorDirective_def directive_keywords_def

lemmas scan_defs =
  match2_def match3_def scan_switch_def scan_step_def processFrontCommentBlock_def
  processTailCommentBlock_def handleComments_def lexer_next_def Lexer_new_def

lemmas lexer_eval =
  cursor_defs char_defs token_defs report_defs literal_defs loop_simps directive_defs
  scan_defs Let_def

text \<open>Fuel written as a numeral: one step of each fuelled function.\<close>

lemma directive_next_loop_numeral:
  "directive_next_loop sc (numeral k) tok s =
     (case sc tok s of
        Inl e \<Rightarrow> Inl e
      | Inr (kd, tok1, s1) \<Rightarrow>
          (let tok2 = tok1\<lparr> kind := kd \<rparr>
           in if kind tok2 = TOK_COMMENT then directive_next_loop sc (pred_numeral k) tok2 s1
              else Inr (tok2, s1)))"
  by (simp add: numeral_eq_Suc)

lemma chewLineAfterDirective_loop_numeral:
  "chewLineAfterDirective_loop sc (numeral k) warnOnNonSpace warned s =
     (case directive_next sc (pred_numeral k) Token_new s of
        Inl e \<Rightarrow> Inl e
      | Inr (kd, tok, s1) \<Rightarrow>
          if kd = TOK_EOL then Inr s1
          else if kd = TOK_COMMENT
            then chewLineAfterDirective_loop sc (pred_numeral k) warnOnNonSpace warned s1
          else if warnOnNonSpace \<and> \<not> warned then
            chewLineAfterDirective_loop sc (pred_numeral k) warnOnNonSpace True
              (cc_report (loc (start tok)) pp_extra_characters s1)
          else chewLineAfterDirective_loop sc (pred_numeral k) warnOnNonSpace warned s1)"
  by (simp add: numeral_eq_Suc)

lemma handleIfContext_loop_numeral:
  "handleIfContext_loop sc (numeral k) s =
     (let (c, s1) = firstNonSpaceChar s
      in case (if c = CHR ''#'' then
                 (case handleDirectiveWhileInactive sc (pred_numeral k) s1 of
                    Inl e \<Rightarrow> Inl e
                  | Inr s2 \<Rightarrow> Inr (no_if_or_active s2, s2))
               else Inr (False, s1)) of
           Inl e \<Rightarrow> Inl e
         | Inr (back_to_lexing, s2) \<Rightarrow>
             if back_to_lexing then Inr s2
             else
               (let (c1, s3) = handleIfContext_skip c s2
                in if c1 = NUL then Inr s3
                   else case advanceLine c1 s3 of
                     Inl e \<Rightarrow> Inl e
                   | Inr s4 \<Rightarrow> handleIfContext_loop sc (pred_numeral k) s4))"
  by (simp add: numeral_eq_Suc)

lemma getMacroTokens_skip_numeral:
  "getMacroTokens_skip sc (numeral k) tok s =
     (case directive_next sc (pred_numeral k) tok s of
        Inl e \<Rightarrow> Inl e
      | Inr (kd, tok1, s1) \<Rightarrow>
          if kd = TOK_COMMENT then getMacroTokens_skip sc (pred_numeral k) tok1 s1
          else Inr (tok1, s1))"
  by (simp add: numeral_eq_Suc)

lemma getMacroTokens_loop_numeral:
  "getMacroTokens_loop sc (numeral k) tokens s =
     (case getMacroTokens_skip sc (pred_numeral k) Token_new s of
        Inl e \<Rightarrow> Inl e
      | Inr (tok, s1) \<Rightarrow>
          if kind tok = TOK_EOL then Inr (tokens, s1)
          else getMacroTokens_loop sc (pred_numeral k) (tokens @ [tok]) s1)"
  by (simp add: numeral_eq_Suc)

lemma scan_numeral:
  "scan (numeral k) tok s = scan_step (scan (pred_numeral k)) (pred_numeral k) tok s"
  by (simp add: numeral_eq_Suc)

lemma processFrontCommentBlock_loop_numeral:
  "processFrontCommentBlock_loop sc (numeral k) st en last_end tok s =
     (case sc tok s of
        Inl e \<Rightarrow> Inl e
      | Inr (kd, tok1, s1) \<Rightarrow>
          (let tok2 = tok1\<lparr> kind := kd \<rparr>
           in if kind tok2 \<noteq> TOK_COMMENT then
                (if line st = line (start tok2) then Inr (None, tok2, s1)
                 else if line (start tok2) \<noteq> line last_end then Inr (Some last_end, tok2, s1)
                 else Inr (Some en, tok2, s1))
              else if line (start tok2) > line last_end + 1 then Inr (Some last_end, tok2, s1)
              else processFrontCommentBlock_loop sc (pred_numeral k) st last_end (endpos tok2)
                     tok2 s1))"
  by (simp add: numeral_eq_Suc)

lemma processTailCommentBlock_loop_numeral:
  "processTailCommentBlock_loop sc (numeral k) en tok s =
     (case sc tok s of
        Inl e \<Rightarrow> Inl e
      | Inr (kd, tok1, s1) \<Rightarrow>
          (let tok2 = tok1\<lparr> kind := kd \<rparr>
           in if kind tok2 \<noteq> TOK_COMMENT then
                (if line (start tok2) > line en + 1 then Inr (en, tok2, s1)
                 else processTailCommentBlock_loop sc (pred_numeral k) (endpos tok2) tok2 s1)
              else Inr (en, tok2, s1)))"
  by (simp add: numeral_eq_Suc)

lemma handleComments_skip_numeral:
  "handleComments_skip sc (numeral k) tok s =
     (if kind tok = TOK_COMMENT then
        (case sc tok s of
           Inl e \<Rightarrow> Inl e
         | Inr (kd, tok1, s1) \<Rightarrow> handleComments_skip sc (pred_numeral k) (tok1\<lparr> kind := kd \<rparr>) s1)
      else Inr (tok, s))"
  by (simp add: numeral_eq_Suc)

lemma handleComments_front_numeral:
  "handleComments_front sc (numeral k) tok s =
     (if kind tok = TOK_COMMENT then
        (case processFrontCommentBlock sc (pred_numeral k) tok s of
           Inl e \<Rightarrow> Inl e
         | Inr (tok1, s1) \<Rightarrow> handleComments_front sc (pred_numeral k) tok1 s1)
      else Inr (tok, s))"
  by (simp add: numeral_eq_Suc)

lemma lex_numeral:
  "lex n (numeral k) s =
     (case lexer_next n Token_new s of
        Inl e \<Rightarrow> Inl e
      | Inr (kd, tok, s1) \<Rightarrow>
          if kd = TOK_EOF then Inr ([(kd, payload tok)], s1)
          else if kd = TOK_NONE then lex n (pred_numeral k) s1
          else (case lex n (pred_numeral k) s1 of
                  Inl e \<Rightarrow> Inl e
                | Inr (toks, s2) \<Rightarrow> Inr ((kd, payload tok) # toks, s2)))"
  by (simp add: numeral_eq_Suc)

lemma next_calls_numeral:
  "next_calls n (numeral k) s =
     (case lexer_next n Token_new s of
        Inl e \<Rightarrow> Inl e
      | Inr (kd, tok, s1) \<Rightarrow>
          (case next_calls n (pred_numeral k) s1 of
             Inl e \<Rightarrow> Inl e
           | Inr (ks, s2) \<Rightarrow> Inr (kd # ks, s2)))"
  by (simp add: numeral_eq_Suc)

lemmas fuel_numeral =
  next_calls_numeral
  directive_next_loop_numeral chewLineAfterDirective_loop_numeral
  handleIfContext_loop_numeral getMacroTokens_skip_numeral getMacroTokens_loop_numeral
  scan_numeral processFrontCommentBlock_loop_numeral processTailCommentBlock_loop_numeral
  handleComments_skip_numeral handleComments_front_numeral lex_numeral

section \<open>The scenarios of the specification, run on the code\<close>

text \<open>
  Each buffer is lexed from a fresh lexer by the caller's loop \<open>lex\<close>; the fuel given is
  enough for the run to end. Offsets count bytes from 0.
\<close>

subsection \<open>Hexadecimal literals\<close>

text \<open>
  C1. The claim: a hexadecimal literal decodes to the base-16 value of its digits, so
  that \<^verbatim>\<open>0x1A + 2\<close> lexes to HEX(26), PLUS, INTEGER(2), EOF. On the code the kinds are
  those, but the HEX payload is 20: the hexadecimal case of \<^verbatim>\<open>handleNumber\<close>
  multiplies the accumulator by 10, so \<^verbatim>\<open>1A\<close> gives \<open>1 * 10 + 10\<close>.
\<close>

theorem hex_literal_0x1A_decodes_to_20:
  "map_sum id (map_prod id reported) (lex 2 6 (Lexer_new directive_keywords False ''0x1A + 2''))
   = Inr ([(TOK_HEX_LITERAL, IntValue 20), (TOK_PLUS, NoValue),
           (TOK_INTEGER_LITERAL, IntValue 2), (TOK_EOF, NoValue)], [])"
  by (simp add: lexer_eval fuel_numeral split del: if_split
        cong: let_weak_cong prod.case_cong_weak)

subsection \<open>The \<^verbatim>\<open>\x\<close> escape\<close>

text \<open>
  C2. The claim: \<^verbatim>\<open>\x\<close> followed by one or two hexadecimal digits gives their value,
  so that the character literal \<^verbatim>\<open>'\x41;'\<close> is CHAR(65). On the code the literal is a
  CHAR token with value 0: \<^verbatim>\<open>readEscapeCode\<close> returns \<^verbatim>\<open>r\<close>, which it never assigns.
  The digits and the \<^verbatim>\<open>;\<close> are consumed, and nothing is reported.
\<close>

theorem char_literal_x41_has_value_0:
  "map_sum id (map_prod id reported)
     (lex 2 6 (Lexer_new directive_keywords False
        ([SQUOTE, BACKSLASH] @ ''x41;'' @ [SQUOTE])))
   = Inr ([(TOK_CHAR_LITERAL, CharValue 0), (TOK_EOF, NoValue)], [])"
  by (simp add: lexer_eval fuel_numeral split del: if_split
        cong: let_weak_cong prod.case_cong_weak)

subsection \<open>Malformed floats\<close>

text \<open>
  C3. The claim: every call to \<^verbatim>\<open>next\<close> produces a token without failing an assertion,
  and in particular \<^verbatim>\<open>1.x\<close> does not reach the \<^verbatim>\<open>assert(false)\<close> of \<^verbatim>\<open>handleNumber\<close>. On
  the code \<^verbatim>\<open>numberLiteral\<close> reports \<^verbatim>\<open>expected_digit_for_float\<close> and returns
  \<^verbatim>\<open>TOK_UNKNOWN\<close>, which is none of the three cases of the \<^verbatim>\<open>switch\<close>: the call ends in
  the default branch, at \<^verbatim>\<open>assert(false)\<close>.
\<close>

theorem malformed_float_reaches_assert_false:
  "lexer_next 1 Token_new (Lexer_new directive_keywords False ''1.x'')
   = Inl (AssertionFailed ''false'')"
  by (simp add: lexer_eval fuel_numeral split del: if_split
        cong: let_weak_cong prod.case_cong_weak)

lemma numberLiteral_malformed_float:
  "map_prod id reported (numberLiteral (CHR ''1'') ((Lexer_new directive_keywords False ''1.x'')\<lparr> pos := 1 \<rparr>))
   = (TOK_UNKNOWN, [(Some 3, expected_digit_for_float)])"
  by (simp add: lexer_eval split del: if_split cong: let_weak_cong prod.case_cong_weak)

subsection \<open>Conditional compilation\<close>

text \<open>
  C4. Lexing \<^verbatim>\<open>#if 0\<close>, \<^verbatim>\<open>JUNK\<close>, \<^verbatim>\<open>#else\<close>, \<^verbatim>\<open>ok\<close>, \<^verbatim>\<open>#endif\<close> (each line ended by a
  line feed) gives exactly one concrete token, NAME(ok), before EOF; no diagnostic is
  delivered, and the if-stack is empty at the end of the file.
\<close>

theorem if_0_else_yields_only_ok:
  "map_sum id (map_prod id (\<lambda>s. (reported s, ifstack s)))
     (lex 10 8 (Lexer_new directive_keywords False
        (''#if 0'' @ [LF] @ ''JUNK'' @ [LF] @ ''#else'' @ [LF] @ ''ok'' @ [LF] @
         ''#endif'' @ [LF])))
   = Inr ([(TOK_NAME, AtomValue ''ok''), (TOK_EOF, NoValue)], [], [])"
  by (simp add: lexer_eval fuel_numeral split del: if_split
        cong: let_weak_cong prod.case_cong_weak)

text \<open>
  The first call of \<^verbatim>\<open>next\<close> handles \<^verbatim>\<open>#if 0\<close>, skips the ignored region and stops
  after \<^verbatim>\<open>#else\<close> with the context flipped to active; it yields \<^verbatim>\<open>TOK_NONE\<close>.
\<close>

lemma if_0_else_first_call:
  "map_sum id (\<lambda>(k, tok, s). (k, ifstack s, pos s))
     (lexer_next 10 Token_new (Lexer_new directive_keywords False
        (''#if 0'' @ [LF] @ ''JUNK'' @ [LF] @ ''#else'' @ [LF] @ ''ok'' @ [LF] @
         ''#endif'' @ [LF])))
   = Inr (TOK_NONE, [\<lparr> first = Some 0, state = Active, elseloc = Some 11 \<rparr>], 16)"
  by (simp add: lexer_eval fuel_numeral split del: if_split
        cong: let_weak_cong prod.case_cong_weak)

subsection \<open>Suppressed diagnostics\<close>

text \<open>
  C5. The claim: while \<^verbatim>\<open>suppress_errors_\<close> is set, as during the line-chew after a
  directive, no diagnostic reaches the reporter, \<^verbatim>\<open>unterminated_string\<close> included. On
  the code the line \<^verbatim>\<open>#endif "a\<close> reports \<^verbatim>\<open>endif_without_if\<close> for the directive and
  then, from the line-chew, \<^verbatim>\<open>unterminated_string\<close> at the quote (offset 7):
  \<^verbatim>\<open>stringLiteral\<close> calls \<^verbatim>\<open>cc_.report\<close>, not the \<^verbatim>\<open>report\<close> that tests the flag.
\<close>

theorem line_chew_delivers_unterminated_string:
  "map_sum id (map_prod id reported)
     (lex 4 4 (Lexer_new directive_keywords False (''#endif '' @ [DQUOTE] @ ''a'' @ [LF])))
   = Inr ([(TOK_EOF, NoValue)],
          [(Some 0, endif_without_if), (Some 7, unterminated_string)])"
  by (simp add: lexer_eval fuel_numeral split del: if_split
        cong: let_weak_cong prod.case_cong_weak)

text \<open>
  The line-chew alone, entered in directive mode at the quote: the flag is set for its
  scope and the diagnostic is delivered all the same.
\<close>

lemma chewLineAfterDirective_delivers_unterminated_string:
  "map_sum id (\<lambda>s. (reported s, suppress_errors s))
     (chewLineAfterDirective (scan 1) 3 False
        ((Lexer_new directive_keywords False ([DQUOTE] @ ''a'' @ [LF]))
           \<lparr> lexing_for_directive := True \<rparr>))
   = Inr ([(Some 0, unterminated_string)], False)"
  by (simp add: lexer_eval fuel_numeral split del: if_split
        cong: let_weak_cong prod.case_cong_weak)

lemma stringLiteral_ignores_suppress_errors:
  "map_prod id (\<lambda>(tok, s). reported s)
     (stringLiteral Token_new
        ((Lexer_new directive_keywords False ([DQUOTE] @ ''a'' @ [LF]))
           \<lparr> pos := 1, suppress_errors := True \<rparr>))
   = (TOK_STRING_LITERAL, [(None, unterminated_string)])"
  by (simp add: lexer_eval split del: if_split cong: let_weak_cong prod.case_cong_weak)

subsection \<open>Tail comments\<close>

text \<open>
  C6. The claim: with comment tracing on, a comment after a token on the same line
  starts a tail block that is extended by the following comments that start at most
  one line after the previous comment ends, and the block consumes no non-comment
  token. On the code the loop of \<^verbatim>\<open>processTailCommentBlock\<close> runs while the scanned token
  is \<^emph>\<open>not\<close> a comment. In the buffer \<^verbatim>\<open>1 // c1\<close>, \<^verbatim>\<open>// c2\<close>, \<^verbatim>\<open>2\<close> the comment \<^verbatim>\<open>// c2\<close>
  starts on the line after \<^verbatim>\<open>// c1\<close>, yet the tail block that is committed is \<^verbatim>\<open>// c1\<close>
  alone (offsets 2 to 7). In the buffer \<^verbatim>\<open>1 // c\<close>, \<^verbatim>\<open>2 // d\<close>, two empty lines, \<^verbatim>\<open>3\<close> the
  token \<^verbatim>\<open>2\<close> is consumed by the tail block of \<^verbatim>\<open>// c\<close> and never reaches the caller.
\<close>

theorem tail_block_not_extended_and_eats_tokens:
  "map_sum id (map_prod id comments)
     (lex 3 6 (Lexer_new directive_keywords True
        (''1 // c1'' @ [LF] @ ''// c2'' @ [LF] @ ''2'')))
   = Inr ([(TOK_INTEGER_LITERAL, IntValue 1), (TOK_INTEGER_LITERAL, IntValue 2),
           (TOK_EOF, NoValue)],
          [(Tail, Some 2, Some 7)])
   \<and>
   map_sum id fst
     (lex 3 6 (Lexer_new directive_keywords True
        (''1 // c'' @ [LF] @ ''2 // d'' @ [LF] @ [LF] @ [LF] @ ''3'')))
   = Inr [(TOK_INTEGER_LITERAL, IntValue 1), (TOK_INTEGER_LITERAL, IntValue 3),
          (TOK_EOF, NoValue)]"
  by (simp add: lexer_eval fuel_numeral split del: if_split
        cong: let_weak_cong prod.case_cong_weak)

subsection \<open>A second \<^verbatim>\<open>#else\<close>\<close>

text \<open>
  C7. The claim: the \<^verbatim>\<open>else_loc\<close> of an if-context is assigned at most once, in the
  directive engine and in the skip engine alike. On the code the directive engine
  returns after it reports \<^verbatim>\<open>else_declared_twice\<close>, but \<^verbatim>\<open>handleDirectiveWhileInactive\<close>
  reports and goes on to assign. In the buffer \<^verbatim>\<open>#if 1\<close>, \<^verbatim>\<open>#else\<close>, \<^verbatim>\<open>#else\<close> the first
  \<^verbatim>\<open>#else\<close> (offset 6) is handled by the directive engine and the second (offset 12) by
  the skip engine. Two calls of \<^verbatim>\<open>next\<close> on the first two lines leave the context with
  \<^verbatim>\<open>elseloc\<close> at offset 6; with the third line, the same two calls report the duplicate
  and leave \<^verbatim>\<open>elseloc\<close> at offset 12.
\<close>

theorem skip_engine_reassigns_elseloc:
  "map_sum id (map_prod id ifstack)
     (next_calls 6 2 (Lexer_new directive_keywords False
        (''#if 1'' @ [LF] @ ''#else'' @ [LF])))
   = Inr ([TOK_NONE, TOK_NONE],
          [\<lparr> first = Some 0, state = Inactive, elseloc = Some 6 \<rparr>])
   \<and>
   map_sum id (map_prod id (\<lambda>s. (reported s, ifstack s)))
     (next_calls 6 2 (Lexer_new directive_keywords False
        (''#if 1'' @ [LF] @ ''#else'' @ [LF] @ ''#else'' @ [LF])))
   = Inr ([TOK_NONE, TOK_NONE],
          [(Some 12, else_declared_twice)],
          [\<lparr> first = Some 0, state = Inactive, elseloc = Some 12 \<rparr>])"
  by (simp add: lexer_eval fuel_numeral split del: if_split
        cong: let_weak_cong prod.case_cong_weak)

text \<open>
  The directive engine keeps the first location: with the second \<^verbatim>\<open>#else\<close> in an active
  region (after \<^verbatim>\<open>#if 0\<close>, whose first \<^verbatim>\<open>#else\<close> is at offset 6 too) the duplicate is
  reported and the context is left as it was.
\<close>

lemma directive_engine_keeps_elseloc:
  "map_sum id (map_prod id (\<lambda>s. (reported s, ifstack s)))
     (next_calls 6 2 (Lexer_new directive_keywords False
        (''#if 0'' @ [LF] @ ''#else'' @ [LF] @ ''#else'' @ [LF])))
   = Inr ([TOK_NONE, TOK_NONE],
          [(Some 12, else_declared_twice)],
          [\<lparr> first = Some 0, state = Active, elseloc = Some 6 \<rparr>])"
  by (simp add: lexer_eval fuel_numeral split del: if_split
        cong: let_weak_cong prod.case_cong_weak)

lemma duplicate_else_whole_file:
  "map_sum id (map_prod id reported)
     (lex 6 8 (Lexer_new directive_keywords False
        (''#if 1'' @ [LF] @ ''#else'' @ [LF] @ ''#else'' @ [LF] @ ''#endif'' @ [LF])))
   = Inr ([(TOK_EOF, NoValue)], [(Some 12, else_declared_twice)])"
  by (simp add: lexer_eval fuel_numeral split del: if_split
        cong: let_weak_cong prod.case_cong_weak)

subsection \<open>Unterminated strings\<close>

text \<open>
  C9. The claim: a string literal that runs into a line end reports
  \<^verbatim>\<open>unterminated_string\<close> once and still returns a STRING token whose payload is the
  interned text read so far, so that \<^verbatim>\<open>"a\<close> before a line feed is a STRING token
  containing \<^verbatim>\<open>a\<close>. On the code the diagnostic is delivered once and the kind is
  \<^verbatim>\<open>TOK_STRING_LITERAL\<close>, but the \<^verbatim>\<open>return\<close> inside the loop comes before
  \<^verbatim>\<open>tok->setAtom\<close>: the token has no payload, and the text \<^verbatim>\<open>a\<close> stays in the scratch
  buffer of the lexer.
\<close>

theorem unterminated_string_has_no_payload:
  "map_sum id (\<lambda>(k, tok, s). (k, payload tok, reported s, literal s))
     (lexer_next 1 Token_new (Lexer_new directive_keywords False ([DQUOTE] @ ''a'' @ [LF])))
   = Inr (TOK_STRING_LITERAL, NoValue, [(Some 0, unterminated_string)], ''a'')"
  by (simp add: lexer_eval fuel_numeral split del: if_split
        cong: let_weak_cong prod.case_cong_weak)

text \<open>The same text closed by a quote is interned.\<close>

lemma terminated_string_has_payload:
  "map_sum id (\<lambda>(k, tok, s). (k, payload tok, reported s))
     (lexer_next 1 Token_new (Lexer_new directive_keywords False ([DQUOTE] @ ''a'' @ [DQUOTE])))
   = Inr (TOK_STRING_LITERAL, AtomValue ''a'', [])"
  by (simp add: lexer_eval fuel_numeral split del: if_split
        cong: let_weak_cong prod.case_cong_weak)

section \<open>Properties for every input\<close>

subsection \<open>Reading a known rest of the buffer\<close>

text \<open>The byte that a read finds in front of \<open>rest\<close>: its first byte, the sentinel at the end.\<close>

definition byte_after :: "string \<Rightarrow> char" where
  "byte_after rest = (case rest of [] \<Rightarrow> NUL | c # cs \<Rightarrow> c)"

lemma drop_Cons_next: "drop n xs = y # ys \<Longrightarrow> drop (Suc n) xs = ys"
  by (metis drop_Suc list.sel(3) tl_drop)

lemma readChar_rest:
  "drop (pos s) (chars s) = rest \<Longrightarrow> readChar s = (byte_after rest, s\<lparr> pos := pos s + 1 \<rparr>)"
  by (cases rest) (auto simp: readChar_def char_at_def byte_after_def nth_via_drop)

lemma readChar_Cons:
  "drop (pos s) (chars s) = x # xs \<Longrightarrow> readChar s = (x, s\<lparr> pos := pos s + 1 \<rparr>)"
  by (simp add: readChar_rest byte_after_def)

subsection \<open>Decimal literals\<close>

text \<open>
  The value that a string of decimal digits denotes, in positional notation: the digit at
  index \<open>i\<close> of \<open>n\<close> digits counts \<open>10 ^ (n - 1 - i)\<close>.
\<close>

definition digit_value :: "char \<Rightarrow> nat" where
  "digit_value c = of_char c - of_char (CHR ''0'')"

definition decimal_value :: "string \<Rightarrow> nat" where
  "decimal_value ds = (\<Sum>i<length ds. digit_value (ds ! i) * 10 ^ (length ds - 1 - i))"

lemma decimal_value_Nil: "decimal_value [] = 0"
  by (simp add: decimal_value_def)

lemma decimal_value_Cons:
  "decimal_value (c # cs) = digit_value c * 10 ^ length cs + decimal_value cs"
  by (simp add: decimal_value_def sum.lessThan_Suc_shift del: sum.lessThan_Suc)

lemma digit_value_less: "IsDigit c \<Longrightarrow> digit_value c < 10"
  by (auto simp: IsDigit_def digit_value_def less_eq_char_def)

lemma numberLiteral_digits_run:
  assumes "drop (pos s) (chars s) = ds @ rest" and "list_all IsDigit ds"
    and "\<not> IsDigit (byte_after rest)"
  shows "numberLiteral_digits s =
           (byte_after rest, s\<lparr> pos := pos s + length ds + 1, literal := literal s @ ds \<rparr>)"
  using assms
proof (induction ds arbitrary: s)
  case Nil
  then show ?case
    by (simp add: numberLiteral_digits.simps[of s] readChar_rest)
next
  case (Cons d ds)
  let ?s1 = "append_literal d (s\<lparr> pos := pos s + 1 \<rparr>)"
  have rd: "readChar s = (d, s\<lparr> pos := pos s + 1 \<rparr>)"
    using Cons.prems(1) by (simp add: readChar_Cons)
  have "drop (pos ?s1) (chars ?s1) = ds @ rest"
    using Cons.prems(1) by (simp add: append_literal_def drop_Cons_next)
  then have "numberLiteral_digits ?s1 =
      (byte_after rest, ?s1\<lparr> pos := pos ?s1 + length ds + 1, literal := literal ?s1 @ ds \<rparr>)"
    using Cons.IH[of ?s1] Cons.prems by simp
  then show ?case
    using Cons.prems(2) by (simp add: numberLiteral_digits.simps[of s] rd append_literal_def)
qed

text \<open>
  \<^verbatim>\<open>numberLiteral\<close> after the first digit \<open>d\<close> has been read, with the digits \<open>ds\<close> and then
  \<open>rest\<close> in front of the cursor: an integer literal unless a \<open>.\<close> follows or the text is
  \<open>0\<close> before an \<open>x\<close>.
\<close>

lemma numberLiteral_integer:
  assumes "drop (pos s) (chars s) = ds @ rest" and "list_all IsDigit ds"
    and "\<not> IsDigit (byte_after rest)" and "byte_after rest \<noteq> CHR ''.''"
    and "\<not> (d # ds = ''0'' \<and> (byte_after rest = CHR ''x'' \<or> byte_after rest = CHR ''X''))"
  shows "numberLiteral d s =
           (TOK_INTEGER_LITERAL,
            s\<lparr> pos := pos s + length ds, literal := d # ds @ [NUL] \<rparr>)"
proof -
  have "drop (pos (s\<lparr> literal := [d] \<rparr>)) (chars (s\<lparr> literal := [d] \<rparr>)) = ds @ rest"
    using assms(1) by simp
  then have run: "numberLiteral_digits (s\<lparr> literal := [d] \<rparr>) =
      (byte_after rest, s\<lparr> pos := pos s + length ds + 1, literal := d # ds \<rparr>)"
    using numberLiteral_digits_run[of "s\<lparr> literal := [d] \<rparr>" ds rest] assms(2,3) by simp
  have nohex: "\<not> (length (d # ds) = 1 \<and> (d # ds) ! 0 = CHR ''0'' \<and>
                  (byte_after rest = CHR ''x'' \<or> byte_after rest = CHR ''X''))"
    using assms(5) by (cases ds) auto
  show ?thesis
    using nohex assms(4)
    by (auto simp: numberLiteral_def run append_literal_def backup_def Let_def)
qed

lemma handleNumber_integer_decodes:
  assumes "list_all IsDigit ds" and "unat v * 10 ^ length ds + decimal_value ds < 2 ^ 64"
  shows "handleNumber_integer l ds v s =
           Inr (of_nat (unat v * 10 ^ length ds + decimal_value ds), s)"
  using assms
proof (induction ds arbitrary: v)
  case Nil
  then show ?case by (simp add: decimal_value_Nil)
next
  case (Cons c cs)
  let ?d = "digit_value c"
  let ?total = "unat v * 10 ^ length (c # cs) + decimal_value (c # cs)"
  have total: "?total = (unat v * 10 + ?d) * 10 ^ length cs + decimal_value cs"
    by (simp add: decimal_value_Cons algebra_simps)
  have pos10: "(1::nat) \<le> 10 ^ length cs" by simp
  have "unat v * 10 + ?d \<le> (unat v * 10 + ?d) * 10 ^ length cs"
    using pos10 by (metis mult.right_neutral mult_le_mono2)
  then have small: "unat v * 10 + ?d < 2 ^ 64"
    using Cons.prems(2) total by linarith
  have d_small: "?d < 2 ^ 64" using small by linarith
  have mul: "TryUint64Multiply v 10 = Some (v * 10)"
    using small by (simp add: TryUint64Multiply_def)
  have unat_mul: "unat (v * 10) = unat v * 10"
    using small by (simp add: unat_mult_lem[THEN iffD1])
  have unat_d: "unat (of_nat ?d :: 64 word) = ?d"
    using d_small by (simp add: unat_of_nat)
  have add: "TryUint64Add (v * 10) (of_nat ?d) = Some (v * 10 + of_nat ?d)"
    using small by (simp add: TryUint64Add_def unat_mul unat_d)
  have unat_add: "unat (v * 10 + of_nat ?d :: 64 word) = unat v * 10 + ?d"
    using small unat_mul unat_d by (simp add: unat_add_lem[THEN iffD1])
  have "handleNumber_integer l cs (v * 10 + of_nat ?d) s =
          Inr (of_nat (unat (v * 10 + of_nat ?d :: 64 word) * 10 ^ length cs + decimal_value cs), s)"
    using Cons.IH[of "v * 10 + of_nat ?d"] Cons.prems total unat_add by simp
  then show ?case
    using Cons.prems(1) mul add unat_add total
    by (simp add: digit_value_def)
qed

lemma consumeWhitespace_token_start:
  assumes "drop (pos s) (chars s) = c # rest"
    and "c \<noteq> LF" "c \<noteq> CR" "c \<noteq> CHR '' ''" "c \<noteq> TAB" "c \<noteq> FF"
  shows "consumeWhitespace s = Inr (c, s\<lparr> pos := pos s + 1 \<rparr>)"
  using assms by (simp add: consumeWhitespace.simps[of s] readChar_Cons Let_def)

lemma IsDigit_no_punctuator:
  assumes "IsDigit c"
  shows "c \<notin> set ([NUL, CR, LF, TAB, FF, SQUOTE, DQUOTE] @ '' #;{}()[]~?:,./*+&|^%-!=<>'')"
  using assms by (auto simp: IsDigit_def)

lemma scan_switch_digit:
  assumes "IsDigit c"
  shows "scan_switch c tok s = handleNumber tok c s"
  using IsDigit_no_punctuator[OF assms] assms
  by (simp add: scan_switch_def split del: if_split)

lemma scan_switch_quote: "scan_switch SQUOTE tok s = Inr (charLiteral tok s)"
  by (simp add: scan_switch_def split del: if_split)

text \<open>
  \<^verbatim>\<open>next\<close> on a run of decimal digits \<open>ds\<close> at the cursor: the token, and the state
  afterwards, in full.
\<close>

lemma lexer_next_decimal_literal:
  assumes "drop (pos s) (chars s) = ds @ rest"
    and "ds \<noteq> []" and "list_all IsDigit ds"
    and "decimal_value ds < 2 ^ 63"
    and "\<not> IsDigit (byte_after rest)" and "byte_after rest \<noteq> CHR ''.''"
    and "\<not> (ds = ''0'' \<and> (byte_after rest = CHR ''x'' \<or> byte_after rest = CHR ''X''))"
  shows "lexer_next (Suc n) tok s =
           Inr (TOK_INTEGER_LITERAL,
                tok\<lparr> kind := TOK_INTEGER_LITERAL,
                     start := \<lparr> loc = Some (pos s), line = line_number s \<rparr>,
                     endpos := \<lparr> loc = Some (pos s + length ds), line = line_number s \<rparr>,
                     payload := IntValue (of_nat (decimal_value ds)) \<rparr>,
                s\<lparr> pos := pos s + length ds, literal := ds @ [NUL],
                   lexed_tokens_on_line := True \<rparr>)
         \<and> unat (of_nat (decimal_value ds) :: 64 word) = decimal_value ds"
proof -
  obtain d ds' where ds: "ds = d # ds'"
    using assms(2) by (cases ds) auto
  have d: "IsDigit d" and ds': "list_all IsDigit ds'"
    using assms(3) ds by auto
  let ?s1 = "s\<lparr> pos := pos s + 1 \<rparr>"
  let ?tok1 = "Token_init \<lparr> loc = lastpos ?s1, line = line_number ?s1 \<rparr> tok"
  have cw: "consumeWhitespace s = Inr (d, ?s1)"
    using assms(1) IsDigit_no_punctuator[OF d] ds
    by (intro consumeWhitespace_token_start[where rest = "ds' @ rest"]) auto
  have nothash: "d \<noteq> CHR ''#''"
    using IsDigit_no_punctuator[OF d] by auto
  have "drop (pos ?s1) (chars ?s1) = ds' @ rest"
    using assms(1) ds by (simp add: drop_Cons_next)
  then have nl: "numberLiteral d ?s1 =
      (TOK_INTEGER_LITERAL, ?s1\<lparr> pos := pos ?s1 + length ds', literal := d # ds' @ [NUL] \<rparr>)"
    using numberLiteral_integer[of ?s1 ds' rest d] ds' assms(5,6,7) ds by simp
  let ?s2 = "?s1\<lparr> pos := pos ?s1 + length ds', literal := d # ds' @ [NUL] \<rparr>"
  have bound: "unat (0::64 word) * 10 ^ length ds + decimal_value ds < 2 ^ 64"
    using assms(4) by simp
  have dec: "handleNumber_integer l ds 0 ?s2 = Inr (of_nat (decimal_value ds), ?s2)" for l
    using handleNumber_integer_decodes[of ds 0 l ?s2] assms(3) bound by simp
  have lit: "take (literal_length ?s2) (literal ?s2) = ds"
    by (simp add: literal_length_def ds)
  have hn: "handleNumber ?tok1 d ?s1 =
      Inr (TOK_INTEGER_LITERAL, ?tok1\<lparr> payload := IntValue (of_nat (decimal_value ds)) \<rparr>, ?s2)"
    by (simp only: handleNumber_def nl Let_def prod.case lit dec sum.case simp_thms if_True)
  have sc: "scan (Suc n) tok s =
      Inr (TOK_INTEGER_LITERAL, ?tok1\<lparr> payload := IntValue (of_nat (decimal_value ds)) \<rparr>, ?s2)"
    by (simp only: scan.simps scan_step_def cw sum.case prod.case nothash simp_thms if_False
          scan_switch_digit[OF d] hn)
  have "unat (of_nat (decimal_value ds) :: 64 word) = decimal_value ds"
    using assms(4) by (simp add: unat_of_nat)
  moreover have "lexer_next (Suc n) tok s =
           Inr (TOK_INTEGER_LITERAL,
                tok\<lparr> kind := TOK_INTEGER_LITERAL,
                     start := \<lparr> loc = Some (pos s), line = line_number s \<rparr>,
                     endpos := \<lparr> loc = Some (pos s + length ds), line = line_number s \<rparr>,
                     payload := IntValue (of_nat (decimal_value ds)) \<rparr>,
                s\<lparr> pos := pos s + length ds, literal := ds @ [NUL],
                   lexed_tokens_on_line := True \<rparr>)"
    unfolding lexer_next_def sc
    by (simp add: Token_init_def lastpos_def here_def pos_loc_def ds)
  ultimately show ?thesis by simp
qed

text \<open>Decimal printing of a natural number, most significant digit first.\<close>

fun decimal_digits :: "nat \<Rightarrow> string" where
  "decimal_digits x =
     (if x < 10 then [char_of (48 + x)]
      else decimal_digits (x div 10) @ [char_of (48 + x mod 10)])"

declare decimal_digits.simps [simp del]

lemma digit_char:
  assumes "d < 10"
  shows "IsDigit (char_of (48 + d))" and "digit_value (char_of (48 + d)) = d"
  using assms by (simp_all add: IsDigit_def digit_value_def less_eq_char_def)

lemma decimal_value_snoc:
  "decimal_value (ds @ [c]) = 10 * decimal_value ds + digit_value c"
  by (induction ds) (simp_all add: decimal_value_Cons decimal_value_Nil)

lemma decimal_digits_sound:
  "list_all IsDigit (decimal_digits x) \<and> decimal_digits x \<noteq> [] \<and>
   decimal_value (decimal_digits x) = x"
proof (induction x rule: decimal_digits.induct)
  case (1 x)
  show ?case
  proof (cases "x < 10")
    case True
    then show ?thesis
      by (simp add: decimal_digits.simps[of x] digit_char decimal_value_Cons decimal_value_Nil)
  next
    case False
    then show ?thesis
      using 1 by (simp add: decimal_digits.simps[of x] digit_char decimal_value_snoc)
  qed
qed

text \<open>
  C8. For every string \<open>ds\<close> of decimal digits that denotes a value below \<open>2 ^ 63\<close>,
  scanning it gives an INTEGER_LITERAL token whose 64-bit payload is that value, and
  nothing is reported. The digits stand at the cursor of any lexer state \<open>s\<close>, before
  \<open>rest\<close>; the byte after them is no digit (the literal is all of \<open>ds\<close>), no \<open>.\<close> (the
  literal is no float) and, after the single digit \<open>0\<close>, no \<open>x\<close> (the literal is not
  hexadecimal). Any fuel but 0 is enough. Only the cursor, the scratch buffer and the
  flag \<open>lexed_tokens_on_line\<close> of the state change, so \<open>reported\<close> is as it was.
\<close>

theorem decimal_literal_decodes_to_its_value:
  assumes "drop (pos s) (chars s) = ds @ rest"
    and "ds \<noteq> []" and "list_all IsDigit ds"
    and "decimal_value ds < 2 ^ 63"
    and "\<not> IsDigit (byte_after rest)" and "byte_after rest \<noteq> CHR ''.''"
    and "\<not> (ds = ''0'' \<and> (byte_after rest = CHR ''x'' \<or> byte_after rest = CHR ''X''))"
  shows "lexer_next (Suc n) tok s =
           Inr (TOK_INTEGER_LITERAL,
                tok\<lparr> kind := TOK_INTEGER_LITERAL,
                     start := \<lparr> loc = Some (pos s), line = line_number s \<rparr>,
                     endpos := \<lparr> loc = Some (pos s + length ds), line = line_number s \<rparr>,
                     payload := IntValue (of_nat (decimal_value ds)) \<rparr>,
                s\<lparr> pos := pos s + length ds, literal := ds @ [NUL],
                   lexed_tokens_on_line := True \<rparr>)
         \<and> unat (of_nat (decimal_value ds) :: 64 word) = decimal_value ds"
  using assms by (rule lexer_next_decimal_literal)

theorem decimal_literal_decodes_to_its_value_witness:
  "drop (pos (Lexer_new directive_keywords False ''x = 42;'' \<lparr> pos := 4 \<rparr>))
        (chars (Lexer_new directive_keywords False ''x = 42;'' \<lparr> pos := 4 \<rparr>)) = ''42'' @ '';''
   \<and> ''42'' \<noteq> [] \<and> list_all IsDigit ''42'' \<and> decimal_value ''42'' < 2 ^ 63
   \<and> \<not> IsDigit (byte_after '';'') \<and> byte_after '';'' \<noteq> CHR ''.''
   \<and> \<not> (''42'' = ''0'' \<and> (byte_after '';'' = CHR ''x'' \<or> byte_after '';'' = CHR ''X''))
   \<and> map_sum id (\<lambda>(k, tok, s). (k, payload tok, pos s, reported s))
        (lexer_next (Suc 0) Token_new
           (Lexer_new directive_keywords False ''x = 42;'' \<lparr> pos := 4 \<rparr>))
       = Inr (TOK_INTEGER_LITERAL, IntValue 42, 6, [])"
proof -
  let ?s = "Lexer_new directive_keywords False ''x = 42;'' \<lparr> pos := 4 \<rparr>"
  have h1: "drop (pos ?s) (chars ?s) = ''42'' @ '';''"
    by (simp add: Lexer_new_def)
  have h3: "list_all IsDigit ''42''"
    by (simp add: IsDigit_def)
  have h4: "decimal_value ''42'' < 2 ^ 63"
    by (simp add: decimal_value_Cons decimal_value_Nil digit_value_def)
  have h5: "\<not> IsDigit (byte_after '';'')" "byte_after '';'' \<noteq> CHR ''.''"
    by (simp_all add: byte_after_def IsDigit_def)
  have h7: "\<not> (''42'' = ''0'' \<and> (byte_after '';'' = CHR ''x'' \<or> byte_after '';'' = CHR ''X''))"
    by simp
  have v: "decimal_value ''42'' = 42"
    by (simp add: decimal_value_Cons decimal_value_Nil digit_value_def)
  show ?thesis
    using decimal_literal_decodes_to_its_value[OF h1 _ h3 h4 h5 h7, of 0 Token_new]
      h1 h3 h4 h5 h7
    by (simp add: v Lexer_new_def)
qed

text \<open>
  Decoding is a left inverse of decimal printing below \<open>2 ^ 63\<close>: the printed digits
  of \<open>x\<close>, followed by a byte that cannot continue a number, lex to an
  INTEGER_LITERAL with payload \<open>x\<close>, and nothing is reported.
\<close>

lemma decimal_digits_roundtrip:
  assumes "x < 2 ^ 63"
    and "drop (pos s) (chars s) = decimal_digits x @ rest"
    and "\<not> IsDigit (byte_after rest)" and "byte_after rest \<noteq> CHR ''.''"
    and "byte_after rest \<noteq> CHR ''x''" and "byte_after rest \<noteq> CHR ''X''"
  shows "\<exists>tok' s'.
           lexer_next (Suc n) tok s = Inr (TOK_INTEGER_LITERAL, tok', s')
         \<and> payload tok' = IntValue (of_nat x) \<and> unat (of_nat x :: 64 word) = x
         \<and> reported s' = reported s"
proof -
  have snd: "list_all IsDigit (decimal_digits x)" "decimal_digits x \<noteq> []"
    "decimal_value (decimal_digits x) = x"
    using decimal_digits_sound[of x] by auto
  have "decimal_value (decimal_digits x) < 2 ^ 63"
    using assms(1) snd(3) by simp
  then show ?thesis
    using lexer_next_decimal_literal[OF assms(2) snd(2) snd(1) _ assms(3,4), of n tok]
      assms(5,6) snd(3)
    by simp
qed

subsection \<open>Unknown escape codes in character literals\<close>

text \<open>
  The escape table of the specification: the bytes after a backslash for which
  \<^verbatim>\<open>readEscapeCode\<close> has a case.
\<close>

definition in_escape_table :: "char \<Rightarrow> bool" where
  "in_escape_table c = (c \<in> set ([BACKSLASH, SQUOTE, DQUOTE] @ ''%abefnrtvx'') \<or> IsDigit c)"

lemma readEscapeCode_unknown:
  assumes "drop (pos s) (chars s) = c # rest" and "\<not> in_escape_table c"
  shows "readEscapeCode s =
           (INT_MAX, cc_report (Some (pos s)) unknown_escapecode (s\<lparr> pos := pos s + 1 \<rparr>))"
  using assms(2)
  by (simp add: readEscapeCode_def readChar_Cons[OF assms(1)] in_escape_table_def lastpos_def
        split del: if_split)

text \<open>
  C10. For every character literal whose escape character \<open>c\<close> is not in the escape
  table, the lexer delivers \<^verbatim>\<open>unknown_escapecode\<close> (at the escape character) and the token
  is a CHAR_LITERAL whose value is the sentinel \<^verbatim>\<open>INT_MAX\<close>, 2147483647. The literal
  stands at the cursor of any lexer state \<open>s\<close>; whatever follows the escape, the kind and
  the value are these, and the only other diagnostic is \<^verbatim>\<open>bad_char_terminator\<close> when the
  closing quote is missing and errors are not suppressed. Any fuel but 0 is enough.
\<close>

theorem unknown_escape_char_literal_is_INT_MAX:
  assumes "drop (pos s) (chars s) = SQUOTE # BACKSLASH # c # rest"
    and "\<not> in_escape_table c"
  shows "\<exists>tok' s'.
           lexer_next (Suc n) tok s = Inr (TOK_CHAR_LITERAL, tok', s')
         \<and> kind tok' = TOK_CHAR_LITERAL
         \<and> payload tok' = CharValue 2147483647
         \<and> reported s' =
             reported s @ (Some (pos s + 2), unknown_escapecode) #
               (if byte_after rest \<noteq> SQUOTE \<and> \<not> suppress_errors s
                then [(Some (pos s), bad_char_terminator)] else [])"
proof -
  let ?s1 = "s\<lparr> pos := Suc (pos s) \<rparr>"
  let ?s2 = "s\<lparr> pos := Suc (Suc (pos s)) \<rparr>"
  let ?s3 = "cc_report (Some (Suc (Suc (pos s)))) unknown_escapecode
               (s\<lparr> pos := Suc (Suc (Suc (pos s))) \<rparr>)"
  let ?s4 = "?s3\<lparr> pos := Suc (pos ?s3) \<rparr>"
  let ?tok1 = "Token_init \<lparr> loc = lastpos ?s1, line = line_number s \<rparr> tok"
  have cw: "consumeWhitespace s = Inr (SQUOTE, ?s1)"
    using consumeWhitespace_token_start[OF assms(1)] by simp
  have d1: "drop (pos ?s1) (chars ?s1) = BACKSLASH # c # rest"
    using assms(1) by (simp add: drop_Cons_next)
  have r1: "readChar ?s1 = (BACKSLASH, ?s2)"
    using readChar_Cons[OF d1] by simp
  have d2: "drop (pos ?s2) (chars ?s2) = c # rest"
    using d1 drop_Cons_next[of "Suc (pos s)" "chars s" BACKSLASH "c # rest"] by simp
  have esc: "readEscapeCode ?s2 = (INT_MAX, ?s3)"
    using readEscapeCode_unknown[OF d2 assms(2)] by simp
  have d3: "drop (pos ?s3) (chars ?s3) = rest"
    using d2 drop_Cons_next[of "Suc (Suc (pos s))" "chars s" c rest]
    by (simp add: cc_report_def)
  have r3: "readChar ?s3 = (byte_after rest, ?s4)"
    using readChar_rest[OF d3] by simp
  have cl: "charLiteral ?tok1 ?s1 =
      (TOK_CHAR_LITERAL,
       ?tok1\<lparr> kind := TOK_CHAR_LITERAL, payload := CharValue INT_MAX \<rparr>,
       (if byte_after rest \<noteq> SQUOTE
        then (if byte_after rest \<noteq> DQUOTE
              then backup (report (loc (start ?tok1)) bad_char_terminator ?s4)
              else report (loc (start ?tok1)) bad_char_terminator ?s4)
        else ?s4))"
    by (auto simp: charLiteral_def r1 esc r3 Let_def Token_init_def)
  have sc: "scan (Suc n) tok s = Inr (charLiteral ?tok1 ?s1)"
    by (simp add: scan_step_def cw scan_switch_quote)
  show ?thesis
    unfolding lexer_next_def sc cl
    by (simp add: Token_init_def lastpos_def report_def cc_report_def backup_def INT_MAX_def
          Let_def)
qed

theorem unknown_escape_char_literal_is_INT_MAX_witness:
  "drop (pos (Lexer_new directive_keywords False ([SQUOTE, BACKSLASH] @ ''q'' @ [SQUOTE])))
        (chars (Lexer_new directive_keywords False ([SQUOTE, BACKSLASH] @ ''q'' @ [SQUOTE])))
     = SQUOTE # BACKSLASH # CHR ''q'' # [SQUOTE]
   \<and> \<not> in_escape_table (CHR ''q'')
   \<and> (\<exists>tok' s'.
         lexer_next (Suc 0) Token_new
           (Lexer_new directive_keywords False ([SQUOTE, BACKSLASH] @ ''q'' @ [SQUOTE]))
           = Inr (TOK_CHAR_LITERAL, tok', s')
       \<and> kind tok' = TOK_CHAR_LITERAL
       \<and> payload tok' = CharValue 2147483647
       \<and> reported s' = [(Some 2, unknown_escapecode)])"
proof -
  let ?s = "Lexer_new directive_keywords False ([SQUOTE, BACKSLASH] @ ''q'' @ [SQUOTE])"
  have h1: "drop (pos ?s) (chars ?s) = SQUOTE # BACKSLASH # CHR ''q'' # [SQUOTE]"
    by (simp add: Lexer_new_def)
  have h2: "\<not> in_escape_table (CHR ''q'')"
    by (simp add: in_escape_table_def IsDigit_def)
  have "reported ?s = []" "pos ?s = 0"
    by (simp_all add: Lexer_new_def)
  then show ?thesis
    using unknown_escape_char_literal_is_INT_MAX[OF h1 h2, of 0 Token_new] h1 h2
    by (simp add: byte_after_def numeral_2_eq_2)
qed

end
